theory Spec2Isabelle
  imports Complex_Main
begin

section \<open>Shared vocabulary\<close>

type_synonym name = string
type_synonym path = string

text \<open>Python exceptions raised by the modelled code, each with its message.\<close>

datatype py_error =
    FileNotFoundError string
  | ValueError string
  | KeyError string
  | RuntimeError string
  | TypeError string
  | OSError string
  | AttributeError string

fun str :: "py_error \<Rightarrow> string" where
  "str (FileNotFoundError m) = m"
| "str (ValueError m) = m"
| "str (KeyError m) = m"
| "str (RuntimeError m) = m"
| "str (TypeError m) = m"
| "str (OSError m) = m"
| "str (AttributeError m) = m"

section \<open>models/model\_loader.py: ModelManager\<close>

text \<open>
  A loaded \<open>torch.nn.Module\<close>: the identity of the Python object and the class
  (\<open>motion_clone\<close> or \<open>fomm\<close>) it was built from.
\<close>

datatype module = Module (obj_id: nat) (arch: name)

text \<open>
  What the manager reads from outside: where the package lives, which files exist, and
  whether \<open>torch.load\<close> followed by \<open>load_state_dict\<close> accepts a checkpoint
  (\<open>Some msg\<close>: it raises with that message).
\<close>

record env =
  base_dir :: path
  path_exists :: "path \<Rightarrow> bool"
  torch_load :: "path \<Rightarrow> string option"
  cuda_available :: bool

text \<open>
  Every invocation of \<open>load_motion_clone_model\<close> or \<open>load_fomm_model\<close>, in order.
  Each invocation constructs one new module object, whose identity is its position here.
\<close>

type_synonym loader_log = "(name \<times> path) list"

record model_manager =
  device :: string
  loaded_models :: "name \<rightharpoonup> module"
  current_model :: "module option"
  current_model_name :: "name option"

type_synonym mm_state = "loader_log \<times> model_manager"

text \<open>The constructor, after \<open>"auto"\<close> has been resolved to a device.\<close>

definition ModelManager_init :: "string \<Rightarrow> model_manager" where
  "ModelManager_init dev =
     \<lparr>device = dev, loaded_models = Map.empty, current_model = None,
      current_model_name = None\<rparr>"

definition get_default_model_path :: "path \<Rightarrow> name \<Rightarrow> py_error + path" where
  "get_default_model_path base model_name =
     (if model_name = ''motion_clone'' then Inr (base @ ''/models/motion_clone/checkpoint.pth'')
      else if model_name = ''fomm'' then Inr (base @ ''/models/fomm/vox-cpk.pth.tar'')
      else Inl (ValueError (''Unknown model: '' @ model_name)))"

text \<open>
  \<open>load_motion_clone_model\<close> and \<open>load_fomm_model\<close> have the same shape: construct the
  network, read the checkpoint when the file exists (which may raise), otherwise keep
  the random weights.
\<close>

definition load_network :: "env \<Rightarrow> name \<Rightarrow> path \<Rightarrow> loader_log \<Rightarrow> (py_error + module) \<times> loader_log" where
  "load_network e a model_path lg =
     (let lg' = lg @ [(a, model_path)]; m = Module (length lg) a
      in if path_exists e model_path
         then (case torch_load e model_path of
                 Some msg \<Rightarrow> (Inl (RuntimeError msg), lg')
               | None \<Rightarrow> (Inr m, lg'))
         else (Inr m, lg'))"

definition load_motion_clone_model :: "env \<Rightarrow> path \<Rightarrow> loader_log \<Rightarrow> (py_error + module) \<times> loader_log" where
  "load_motion_clone_model e = load_network e ''motion_clone''"

definition load_fomm_model :: "env \<Rightarrow> path \<Rightarrow> loader_log \<Rightarrow> (py_error + module) \<times> loader_log" where
  "load_fomm_model e = load_network e ''fomm''"

definition load_model :: "env \<Rightarrow> name \<Rightarrow> path option \<Rightarrow> mm_state \<Rightarrow> (py_error + module) \<times> mm_state" where
  "load_model e model_name model_path s =
     (case s of (lg, mm) \<Rightarrow>
       (case loaded_models mm model_name of
          Some m \<Rightarrow> (Inr m, s)
        | None \<Rightarrow>
           (case (case model_path of
                    None \<Rightarrow> get_default_model_path (base_dir e) model_name
                  | Some p \<Rightarrow> Inr p) of
              Inl err \<Rightarrow> (Inl err, s)
            | Inr p \<Rightarrow>
               if \<not> path_exists e p then (Inl (FileNotFoundError (''Model not found at '' @ p)), s)
               else if model_name = ''motion_clone'' \<or> model_name = ''fomm'' then
                 (case (if model_name = ''motion_clone'' then load_motion_clone_model e p lg
                        else load_fomm_model e p lg) of
                    (Inl err, lg') \<Rightarrow> (Inl err, (lg', mm))
                  | (Inr m, lg') \<Rightarrow>
                      (Inr m, (lg', mm\<lparr>loaded_models := (loaded_models mm)(model_name \<mapsto> m)\<rparr>)))
               else (Inl (ValueError (''Unknown model: '' @ model_name)), s))))"

definition set_current_model :: "env \<Rightarrow> name \<Rightarrow> mm_state \<Rightarrow> (py_error + module) \<times> mm_state" where
  "set_current_model e model_name s =
     (case (if model_name \<notin> dom (loaded_models (snd s))
            then (case load_model e model_name None s of
                    (Inl err, s') \<Rightarrow> (Some err, s')
                  | (Inr _, s') \<Rightarrow> (None, s'))
            else (None, s)) of
        (Some err, s') \<Rightarrow> (Inl err, s')
      | (None, (lg, mm)) \<Rightarrow>
          (case loaded_models mm model_name of
             None \<Rightarrow> (Inl (KeyError model_name), (lg, mm))
           | Some m \<Rightarrow>
               (Inr m, (lg, mm\<lparr>current_model := Some m, current_model_name := Some model_name\<rparr>))))"

definition get_current_model :: "model_manager \<Rightarrow> module option" where
  "get_current_model mm = current_model mm"

definition get_available_models :: "env \<Rightarrow> name \<rightharpoonup> path" where
  "get_available_models e =
     (let mc = base_dir e @ ''/models/motion_clone/checkpoint.pth'';
          fo = base_dir e @ ''/models/fomm/vox-cpk.pth.tar'';
          models = (if path_exists e mc then [''motion_clone'' \<mapsto> mc] else Map.empty)
      in if path_exists e fo then models(''fomm'' \<mapsto> fo) else models)"

definition unload_model :: "name \<Rightarrow> model_manager \<Rightarrow> model_manager" where
  "unload_model model_name mm =
     (if model_name \<in> dom (loaded_models mm) then
        (let mm' = mm\<lparr>loaded_models := (loaded_models mm)(model_name := None)\<rparr>
         in if current_model_name mm' = Some model_name
            then mm'\<lparr>current_model := None, current_model_name := None\<rparr>
            else mm')
      else mm)"

text \<open>
  The registry states that the three operations can produce from a fresh manager. The
  outside world may differ from one call to the next.
\<close>

inductive reachable :: "mm_state \<Rightarrow> bool" where
  r_init: "reachable ([], ModelManager_init dev)"
| r_load: "reachable s \<Longrightarrow> reachable (snd (load_model e n p s))"
| r_set: "reachable s \<Longrightarrow> reachable (snd (set_current_model e n s))"
| r_unload: "reachable (lg, mm) \<Longrightarrow> reachable (lg, unload_model n mm)"

text \<open>The current name and the current module always go together, and the name's cache
  entry is the current module.\<close>

definition current_linked :: "model_manager \<Rightarrow> bool" where
  "current_linked mm =
     (case current_model_name mm of
        None \<Rightarrow> current_model mm = None
      | Some n \<Rightarrow> current_model mm \<noteq> None \<and> loaded_models mm n = current_model mm)"

definition example_env :: env where
  "example_env =
     \<lparr>base_dir = ''/app'',
      path_exists = (\<lambda>p. p = ''/app/models/fomm/vox-cpk.pth.tar''),
      torch_load = (\<lambda>p. None), cuda_available = False\<rparr>"

definition empty_env :: env where
  "empty_env = \<lparr>base_dir = ''/app'', path_exists = (\<lambda>p. False), torch_load = (\<lambda>p. None),
      cuda_available = False\<rparr>"

section \<open>Media decoding: inference/predictor.py and utils/video\_processing.py\<close>

text \<open>
  An opened \<open>cv2.VideoCapture\<close>: whether the container could be opened, and the frames
  that successive \<open>read()\<close> calls return before the first call that reports failure.
\<close>

record 'f capture =
  is_opened :: bool
  stream :: "'f list"

text \<open>
  The loop of \<open>preprocess_video\<close>. One equation per state of the stream: an exhausted
  stream makes \<open>read()\<close> report failure, which leaves the loop. The per-frame colour
  conversion and tensor transform are the function \<open>tr\<close>.
\<close>

fun preprocess_loop :: "('f \<Rightarrow> 't) \<Rightarrow> bool \<Rightarrow> int \<Rightarrow> 'f list \<Rightarrow> int \<Rightarrow> 't list \<Rightarrow> 't list" where
  "preprocess_loop tr opened max_frames [] frame_count frames = frames"
| "preprocess_loop tr opened max_frames (frame # rest) frame_count frames =
     (if opened \<and> frame_count < max_frames
      then preprocess_loop tr opened max_frames rest (frame_count + 1) (frames @ [tr frame])
      else frames)"

definition preprocess_video :: "('f \<Rightarrow> 't) \<Rightarrow> 'f capture \<Rightarrow> int \<Rightarrow> py_error + 't list" where
  "preprocess_video tr cap max_frames =
     (let frames = preprocess_loop tr (is_opened cap) max_frames (stream cap) 0 []
      in if frames = [] then Inl (ValueError ''No frames could be extracted from video'')
         else Inr frames)"

text \<open>
  The loop of \<open>VideoProcessor.extract_frames\<close>. The limit is optional, and the test
  \<open>if max_frames and frame_count >= max_frames\<close> treats both \<open>None\<close> and \<open>0\<close> as
  no limit.
\<close>

fun extract_loop :: "bool \<Rightarrow> int option \<Rightarrow> 'f list \<Rightarrow> int \<Rightarrow> 'f list \<Rightarrow> 'f list" where
  "extract_loop opened max_frames [] frame_count frames = frames"
| "extract_loop opened max_frames (frame # rest) frame_count frames =
     (if opened then
        (let frames' = frames @ [frame]; frame_count' = frame_count + 1
         in if (case max_frames of None \<Rightarrow> False | Some n \<Rightarrow> n \<noteq> 0 \<and> frame_count' \<ge> n)
            then frames'
            else extract_loop opened max_frames rest frame_count' frames')
      else frames)"

definition extract_frames :: "'f capture \<Rightarrow> int option \<Rightarrow> 'f list" where
  "extract_frames cap max_frames = extract_loop (is_opened cap) max_frames (stream cap) 0 []"

section \<open>The service state: inference/api.py and inference/predictor.py\<close>

text \<open>
  A \<open>Motion3DPredictor\<close>. Its \<open>model_manager\<close> is the process-wide manager, which the
  service state holds. \<open>model\<close> is optional because \<open>switch_model\<close> assigns it from
  \<open>get_current_model()\<close>, whose result may be \<open>None\<close>.
\<close>

record predictor =
  model :: "module option"
  model_name :: name
  pdevice :: string

text \<open>One entry of \<open>current_tasks\<close>: a dictionary with the keys \<open>status\<close> and
  \<open>progress\<close>, and \<open>output_path\<close> or \<open>error\<close> when they have been stored.\<close>

record task =
  status :: string
  progress :: int
  output_path :: "path option"
  error :: "string option"

record job =
  job_task_id :: string
  job_source_path :: path
  job_driving_path :: path
  job_model_name :: name

text \<open>What the service does to the outside world and to the task table, in order.\<close>

datatype event =
    TaskWrite string task
  | TaskDelete string
  | FileWrite path
  | FileMove path path
  | FileRemove path
  | ImageDecoded path
  | VideoDecoded path nat
  | Inference name nat

record app =
  manager :: "model_manager option"
  loader_calls :: loader_log
  the_predictor :: "predictor option"
  current_tasks :: "string \<rightharpoonup> task"
  files :: "path \<rightharpoonup> string"
  background :: "job list"
  events :: "event list"

datatype fs_op = OpWrite path | OpMove path path | OpRemove path

text \<open>
  The media libraries and the operating system, as the service sees them: decoding an
  image file (\<open>None\<close>: no such file), opening a video file, the tensor transform, the
  network's forward pass, \<open>imageio.mimsave\<close> (the bytes it wrote, and the exception it
  raised if any), file operations that fail, \<open>os.path.splitext(_)[1]\<close>, and the
  duration measured for each benchmark run.
\<close>

record ('f, 't) media_env =
  image_open :: "string option \<Rightarrow> py_error + 'f"
  VideoCapture :: "string option \<Rightarrow> 'f capture"
  transform :: "'f \<Rightarrow> 't"
  forward :: "module \<Rightarrow> 't \<Rightarrow> 't list \<Rightarrow> py_error + 't list"
  mimsave :: "'t list \<Rightarrow> py_error option \<times> string"
  fs_fault :: "fs_op \<Rightarrow> py_error option"
  splitext_ext :: "string \<Rightarrow> string"
  run_seconds :: "nat \<Rightarrow> real"

subsection \<open>Sequencing statements that may raise\<close>

type_synonym 'a io = "app \<Rightarrow> (py_error + 'a) \<times> app"

definition io_return :: "'a \<Rightarrow> 'a io" where
  "io_return x = (\<lambda>s. (Inr x, s))"

definition io_raise :: "py_error \<Rightarrow> 'a io" where
  "io_raise err = (\<lambda>s. (Inl err, s))"

definition io_bind :: "'a io \<Rightarrow> ('a \<Rightarrow> 'b io) \<Rightarrow> 'b io" where
  "io_bind f g = (\<lambda>s. case f s of (Inl err, s') \<Rightarrow> (Inl err, s') | (Inr x, s') \<Rightarrow> g x s')"

definition emit :: "event \<Rightarrow> app \<Rightarrow> app" where
  "emit ev s = s\<lparr>events := events s @ [ev]\<rparr>"

subsection \<open>Files and the task table\<close>

definition write_file :: "('f, 't) media_env \<Rightarrow> path \<Rightarrow> string \<Rightarrow> unit io" where
  "write_file me p content s =
     (case fs_fault me (OpWrite p) of
        Some err \<Rightarrow> (Inl err, s)
      | None \<Rightarrow> (Inr (), emit (FileWrite p) (s\<lparr>files := (files s)(p \<mapsto> content)\<rparr>)))"

definition move_file :: "('f, 't) media_env \<Rightarrow> path \<Rightarrow> path \<Rightarrow> unit io" where
  "move_file me src dst s =
     (case fs_fault me (OpMove src dst) of
        Some err \<Rightarrow> (Inl err, s)
      | None \<Rightarrow>
         (case files s src of
            None \<Rightarrow> (Inl (FileNotFoundError src), s)
          | Some content \<Rightarrow>
             (Inr (), emit (FileMove src dst)
                        (s\<lparr>files := ((files s)(src := None))(dst \<mapsto> content)\<rparr>))))"

definition remove_file :: "('f, 't) media_env \<Rightarrow> path \<Rightarrow> unit io" where
  "remove_file me p s =
     (case fs_fault me (OpRemove p) of
        Some err \<Rightarrow> (Inl err, s)
      | None \<Rightarrow>
         (case files s p of
            None \<Rightarrow> (Inl (FileNotFoundError p), s)
          | Some _ \<Rightarrow> (Inr (), emit (FileRemove p) (s\<lparr>files := (files s)(p := None)\<rparr>))))"

text \<open>\<open>current_tasks[task_id] = t\<close>: stores a whole record.\<close>

definition set_task :: "string \<Rightarrow> task \<Rightarrow> app \<Rightarrow> app" where
  "set_task task_id t s = emit (TaskWrite task_id t) (s\<lparr>current_tasks := (current_tasks s)(task_id \<mapsto> t)\<rparr>)"

text \<open>\<open>current_tasks[task_id][key] = v\<close>: raises \<open>KeyError\<close> when the task is absent.\<close>

definition update_task :: "string \<Rightarrow> (task \<Rightarrow> task) \<Rightarrow> unit io" where
  "update_task task_id f s =
     (case current_tasks s task_id of
        None \<Rightarrow> (Inl (KeyError task_id), s)
      | Some t \<Rightarrow> (Inr (), set_task task_id (f t) s))"

subsection \<open>Motion3DPredictor\<close>

definition preprocess_image :: "('f, 't) media_env \<Rightarrow> path \<Rightarrow> 't io" where
  "preprocess_image me image_path s =
     (case image_open me (files s image_path) of
        Inl err \<Rightarrow> (Inl err, s)
      | Inr img \<Rightarrow> (Inr (transform me img), emit (ImageDecoded image_path) s))"

definition preprocess_video_file :: "('f, 't) media_env \<Rightarrow> path \<Rightarrow> int \<Rightarrow> 't list io" where
  "preprocess_video_file me video_path max_frames s =
     (case preprocess_video (transform me) (VideoCapture me (files s video_path)) max_frames of
        Inl err \<Rightarrow> (Inl err, s)
      | Inr frames \<Rightarrow> (Inr frames, emit (VideoDecoded video_path (length frames)) s))"

text \<open>\<open>self.model(source_tensor, driving_tensor)\<close>; calling \<open>None\<close> raises.\<close>

definition run_model :: "('f, 't) media_env \<Rightarrow> 't \<Rightarrow> 't list \<Rightarrow> 't list io" where
  "run_model me source_tensor driving_tensor s =
     (case the_predictor s of
        None \<Rightarrow> (Inl (AttributeError ''NoneType has no attribute model''), s)
      | Some p \<Rightarrow>
         (case model p of
            None \<Rightarrow> (Inl (TypeError ''NoneType object is not callable''), s)
          | Some m \<Rightarrow>
             (case forward me m source_tensor driving_tensor of
                Inl err \<Rightarrow> (Inl err, s)
              | Inr out \<Rightarrow> (Inr out, emit (Inference (model_name p) (length driving_tensor)) s))))"

text \<open>\<open>_save_output_video\<close>: whatever \<open>mimsave\<close> wrote is on disk, also when it raised.\<close>

definition save_output_video :: "('f, 't) media_env \<Rightarrow> 't list \<Rightarrow> path \<Rightarrow> unit io" where
  "save_output_video me output_tensor out_path s =
     (case mimsave me output_tensor of
        (Some err, written) \<Rightarrow> (Inl err, s\<lparr>files := (files s)(out_path \<mapsto> written)\<rparr>)
      | (None, written) \<Rightarrow>
          (Inr (), emit (FileWrite out_path) (s\<lparr>files := (files s)(out_path \<mapsto> written)\<rparr>)))"

text \<open>\<open>Motion3DPredictor.generate_motion\<close>, called with an explicit output path, as the
  service always does.\<close>

definition predictor_generate_motion :: "('f, 't) media_env \<Rightarrow> path \<Rightarrow> path \<Rightarrow> path \<Rightarrow> path io" where
  "predictor_generate_motion me source_image_path driving_video_path out_path =
     io_bind (preprocess_image me source_image_path) (\<lambda>source_tensor.
     io_bind (preprocess_video_file me driving_video_path 100) (\<lambda>driving_tensor.
     io_bind (run_model me source_tensor driving_tensor) (\<lambda>output_tensor.
     io_bind (save_output_video me output_tensor out_path) (\<lambda>_.
     io_return out_path))))"

text \<open>The three statements that switch the predictor to another model; used by
  \<open>switch_model\<close>, \<open>process_motion_transfer\<close> and \<open>benchmark_model\<close>.\<close>

definition switch_predictor :: "env \<Rightarrow> name \<Rightarrow> unit io" where
  "switch_predictor e mname s =
     (case (the_predictor s, manager s) of
        (Some p, Some mm) \<Rightarrow>
          (case set_current_model e mname (loader_calls s, mm) of
             (Inl err, (lg, mm')) \<Rightarrow> (Inl err, s\<lparr>manager := Some mm', loader_calls := lg\<rparr>)
           | (Inr _, (lg, mm')) \<Rightarrow>
               (Inr (), s\<lparr>manager := Some mm', loader_calls := lg,
                          the_predictor := Some (p\<lparr>model := get_current_model mm',
                                                    model_name := mname\<rparr>)\<rparr>))
      | _ \<Rightarrow> (Inl (AttributeError ''NoneType has no attribute model_manager''), s))"

definition switch_if_needed :: "env \<Rightarrow> name \<Rightarrow> unit io" where
  "switch_if_needed e mname s =
     (case the_predictor s of
        None \<Rightarrow> (Inl (AttributeError ''NoneType has no attribute model_name''), s)
      | Some p \<Rightarrow> if model_name p \<noteq> mname then switch_predictor e mname s else (Inr (), s))"

subsection \<open>Start-up and the endpoints\<close>

datatype http_exception = HTTPException (status_code: nat) (detail: string)

text \<open>An exception that leaves an endpoint is answered by the framework.\<close>

definition internal_server_error :: http_exception where
  "internal_server_error = HTTPException 500 ''Internal Server Error''"

definition app_init :: "(path \<rightharpoonup> string) \<Rightarrow> app" where
  "app_init fs =
     \<lparr>manager = None, loader_calls = [], the_predictor = None, current_tasks = Map.empty,
      files = fs, background = [], events = []\<rparr>"

definition get_model_manager :: "env \<Rightarrow> string \<Rightarrow> app \<Rightarrow> model_manager \<times> app" where
  "get_model_manager e dev s =
     (case manager s of
        Some mm \<Rightarrow> (mm, s)
      | None \<Rightarrow>
         (let mm = ModelManager_init
                     (if dev = ''auto'' then (if cuda_available e then ''cuda'' else ''cpu'') else dev)
          in (mm, s\<lparr>manager := Some mm\<rparr>)))"

definition Motion3DPredictor_init :: "env \<Rightarrow> name \<Rightarrow> string \<Rightarrow> app \<Rightarrow> (py_error + predictor) \<times> app" where
  "Motion3DPredictor_init e mname dev s =
     (case get_model_manager e dev s of (mm, s1) \<Rightarrow>
       (case load_model e mname None (loader_calls s1, mm) of
          (Inl err, (lg, mm')) \<Rightarrow> (Inl err, s1\<lparr>manager := Some mm', loader_calls := lg\<rparr>)
        | (Inr m, (lg, mm')) \<Rightarrow>
            (Inr \<lparr>model = Some m, model_name = mname, pdevice = dev\<rparr>,
             s1\<lparr>manager := Some mm', loader_calls := lg\<rparr>)))"

definition startup_event :: "env \<Rightarrow> app \<Rightarrow> app" where
  "startup_event e s =
     (case Motion3DPredictor_init e ''motion_clone'' ''auto'' s of
        (Inr p, s1) \<Rightarrow> s1\<lparr>the_predictor := Some p\<rparr>
      | (Inl _, s1) \<Rightarrow>
         (case Motion3DPredictor_init e ''fomm'' ''auto'' s1 of
            (Inr p, s2) \<Rightarrow> s2\<lparr>the_predictor := Some p\<rparr>
          | (Inl _, s2) \<Rightarrow> s2\<lparr>the_predictor := None\<rparr>))"

definition switch_model :: "env \<Rightarrow> name \<Rightarrow> app \<Rightarrow> (http_exception + string) \<times> app" where
  "switch_model e mname s =
     (if the_predictor s = None then (Inl (HTTPException 503 ''No models loaded''), s)
      else if mname \<notin> set [''motion_clone'', ''fomm'']
      then (Inl (HTTPException 400 ''Invalid model name''), s)
      else (case switch_predictor e mname s of
              (Inl err, s') \<Rightarrow> (Inl (HTTPException 500 (str err)), s')
            | (Inr _, s') \<Rightarrow> (Inr (''Switched to '' @ mname), s')))"

record upload_file =
  content_type :: string
  filename :: string
  file_data :: string

record motion_response =
  r_task_id :: string
  r_status :: string
  r_output_path :: "path option"
  r_error :: "string option"

definition startswith :: "string \<Rightarrow> string \<Rightarrow> bool" where
  "startswith s p = (take (length p) s = p)"

text \<open>\<open>os.path.join\<close> of a directory name and one component.\<close>

definition path_join :: "path \<Rightarrow> string \<Rightarrow> path" where
  "path_join d c = (if startswith c ''/'' then c else d @ ''/'' @ c)"

definition UPLOAD_DIR :: path where "UPLOAD_DIR = ''uploads''"
definition RESULTS_DIR :: path where "RESULTS_DIR = ''results''"

text \<open>\<open>POST /generate\<close>. The argument \<open>uuid\<close> is the value of \<open>str(uuid.uuid4())\<close>.\<close>

definition generate_motion ::
  "('f, 't) media_env \<Rightarrow> string \<Rightarrow> upload_file \<Rightarrow> upload_file \<Rightarrow> name \<Rightarrow> app
   \<Rightarrow> (http_exception + motion_response) \<times> app" where
  "generate_motion me uuid source_image driving_video mname s =
     (if the_predictor s = None then (Inl (HTTPException 503 ''No models loaded''), s)
      else if \<not> startswith (content_type source_image) ''image/''
      then (Inl (HTTPException 400 ''Source file must be an image''), s)
      else if \<not> startswith (content_type driving_video) ''video/''
      then (Inl (HTTPException 400 ''Driving file must be a video''), s)
      else
        (let source_path = path_join UPLOAD_DIR
                             (uuid @ ''_source'' @ splitext_ext me (filename source_image));
             driving_path = path_join UPLOAD_DIR
                             (uuid @ ''_driving'' @ splitext_ext me (filename driving_video))
         in case write_file me source_path (file_data source_image) s of
              (Inl _, s1) \<Rightarrow> (Inl internal_server_error, s1)
            | (Inr _, s1) \<Rightarrow>
               (case write_file me driving_path (file_data driving_video) s1 of
                  (Inl _, s2) \<Rightarrow> (Inl internal_server_error, s2)
                | (Inr _, s2) \<Rightarrow>
                   (let s3 = set_task uuid
                               \<lparr>status = ''processing'', progress = 0, output_path = None,
                                error = None\<rparr> s2;
                        s4 = s3\<lparr>background := background s3 @
                               [\<lparr>job_task_id = uuid, job_source_path = source_path,
                                 job_driving_path = driving_path, job_model_name = mname\<rparr>]\<rparr>
                    in (Inr \<lparr>r_task_id = uuid, r_status = ''processing'', r_output_path = None,
                             r_error = None\<rparr>, s4)))))"

subsection \<open>The background worker\<close>

text \<open>The two paths the worker builds under \<open>RESULTS_DIR\<close>.\<close>

definition worker_output_path :: "string \<Rightarrow> path" where
  "worker_output_path task_id = path_join RESULTS_DIR (task_id @ ''_output.mp4'')"

definition worker_final_path :: "string \<Rightarrow> path" where
  "worker_final_path task_id = path_join RESULTS_DIR (task_id @ ''.mp4'')"

text \<open>The \<open>try\<close> block of \<open>process_motion_transfer\<close> down to the progress mark 75:
  status and progress updates, model switch, generation (decode, inference, encode).\<close>

definition generate_stage ::
  "('f, 't) media_env \<Rightarrow> env \<Rightarrow> string \<Rightarrow> path \<Rightarrow> path \<Rightarrow> name \<Rightarrow> path io" where
  "generate_stage me e task_id source_path driving_path mname =
     io_bind (update_task task_id (\<lambda>t. t\<lparr>status := ''processing''\<rparr>)) (\<lambda>_.
     io_bind (update_task task_id (\<lambda>t. t\<lparr>progress := 25\<rparr>)) (\<lambda>_.
     io_bind (switch_if_needed e mname) (\<lambda>_.
     io_bind (update_task task_id (\<lambda>t. t\<lparr>progress := 50\<rparr>)) (\<lambda>_.
     io_bind (predictor_generate_motion me source_path driving_path
                (worker_output_path task_id)) (\<lambda>result_path.
     io_bind (update_task task_id (\<lambda>t. t\<lparr>progress := 75\<rparr>)) (\<lambda>_.
     io_return result_path))))))"

text \<open>The \<open>try\<close> block up to and including \<open>shutil.move\<close>.\<close>

definition produce_output ::
  "('f, 't) media_env \<Rightarrow> env \<Rightarrow> string \<Rightarrow> path \<Rightarrow> path \<Rightarrow> name \<Rightarrow> path io" where
  "produce_output me e task_id source_path driving_path mname =
     io_bind (generate_stage me e task_id source_path driving_path mname) (\<lambda>result_path.
     io_bind (move_file me result_path (worker_final_path task_id)) (\<lambda>_.
     io_return (worker_final_path task_id)))"

definition completed_task :: "path \<Rightarrow> task" where
  "completed_task final_path =
     \<lparr>status = ''completed'', progress = 100, output_path = Some final_path, error = None\<rparr>"

definition error_task :: "py_error \<Rightarrow> task" where
  "error_task err = \<lparr>status = ''error'', progress = 0, output_path = None, error = Some (str err)\<rparr>"

text \<open>The whole \<open>try\<close> block: after the move, the two uploads are removed and the
  completed record is stored.\<close>

definition try_block ::
  "('f, 't) media_env \<Rightarrow> env \<Rightarrow> string \<Rightarrow> path \<Rightarrow> path \<Rightarrow> name \<Rightarrow> unit io" where
  "try_block me e task_id source_path driving_path mname =
     io_bind (produce_output me e task_id source_path driving_path mname) (\<lambda>final_path.
     io_bind (remove_file me source_path) (\<lambda>_.
     io_bind (remove_file me driving_path) (\<lambda>_.
     (\<lambda>s. (Inr (), set_task task_id (completed_task final_path) s)))))"

definition process_motion_transfer ::
  "('f, 't) media_env \<Rightarrow> env \<Rightarrow> string \<Rightarrow> path \<Rightarrow> path \<Rightarrow> name \<Rightarrow> app \<Rightarrow> app" where
  "process_motion_transfer me e task_id source_path driving_path mname s =
     (case try_block me e task_id source_path driving_path mname s of
        (Inr _, s') \<Rightarrow> s'
      | (Inl err, s') \<Rightarrow> set_task task_id (error_task err) s')"

subsection \<open>Reading and deleting tasks\<close>

definition get_task_status :: "string \<Rightarrow> app \<Rightarrow> http_exception + task" where
  "get_task_status task_id s =
     (case current_tasks s task_id of
        None \<Rightarrow> Inl (HTTPException 404 ''Task not found'')
      | Some t \<Rightarrow> Inr t)"

definition download_result :: "string \<Rightarrow> app \<Rightarrow> http_exception + string" where
  "download_result task_id s =
     (case current_tasks s task_id of
        None \<Rightarrow> Inl (HTTPException 404 ''Task not found'')
      | Some t \<Rightarrow>
         if status t \<noteq> ''completed'' then Inl (HTTPException 400 ''Task not completed'')
         else (case output_path t of
                 None \<Rightarrow> Inl internal_server_error
               | Some p \<Rightarrow>
                  (case files s p of
                     None \<Rightarrow> Inl (HTTPException 404 ''Output file not found'')
                   | Some content \<Rightarrow> Inr content)))"

definition cleanup_task :: "('f, 't) media_env \<Rightarrow> string \<Rightarrow> app \<Rightarrow> (http_exception + string) \<times> app" where
  "cleanup_task me task_id s =
     (case current_tasks s task_id of
        None \<Rightarrow> (Inl (HTTPException 404 ''Task not found''), s)
      | Some t \<Rightarrow>
         (case (case output_path t of
                  Some p \<Rightarrow> if files s p \<noteq> None then remove_file me p s else (Inr (), s)
                | None \<Rightarrow> (Inr (), s)) of
            (Inl _, s1) \<Rightarrow> (Inl internal_server_error, s1)
          | (Inr _, s1) \<Rightarrow>
              (Inr ''Task cleaned up successfully'',
               emit (TaskDelete task_id) (s1\<lparr>current_tasks := (current_tasks s1)(task_id := None)\<rparr>))))"

subsection \<open>Benchmarking\<close>

text \<open>Values stored in the result dictionary. \<open>PyInf\<close> stands for the quotient numpy
  returns when the average time is zero.\<close>

datatype pyval = PyFloat real | PyInf | PyStr string | PyInt int

text \<open>The timing loop \<open>for i in range(num_runs)\<close>: the number of runs still to do, the
  index of the next run, the times so far.\<close>

fun benchmark_runs ::
  "('f, 't) media_env \<Rightarrow> 't \<Rightarrow> 't list \<Rightarrow> nat \<Rightarrow> nat \<Rightarrow> real list \<Rightarrow> real list io" where
  "benchmark_runs me source_tensor driving_tensor 0 i timings s = (Inr timings, s)"
| "benchmark_runs me source_tensor driving_tensor (Suc k) i timings s =
     (case run_model me source_tensor driving_tensor s of
        (Inl err, s') \<Rightarrow> (Inl err, s')
      | (Inr _, s') \<Rightarrow>
          benchmark_runs me source_tensor driving_tensor k (Suc i) (timings @ [run_seconds me i]) s')"

definition benchmark_results :: "predictor \<Rightarrow> nat \<Rightarrow> real list \<Rightarrow> py_error + (string \<times> pyval) list" where
  "benchmark_results p input_frames timings =
     (let avg_time = sum_list timings / real (length timings);
          fps = (if avg_time = 0 then PyInf else PyFloat (real input_frames / avg_time))
      in if timings = [] then Inl (ValueError ''min() arg is an empty sequence'')
         else Inr [(''avg_time_seconds'', PyFloat avg_time),
                   (''min_time_seconds'', PyFloat (Min (set timings))),
                   (''max_time_seconds'', PyFloat (Max (set timings))),
                   (''fps'', fps),
                   (''model_name'', PyStr (model_name p)),
                   (''input_frames'', PyInt (int input_frames)),
                   (''device'', PyStr (pdevice p))])"

definition benchmark_performance ::
  "('f, 't) media_env \<Rightarrow> path \<Rightarrow> path \<Rightarrow> int \<Rightarrow> (string \<times> pyval) list io" where
  "benchmark_performance me test_image test_video num_runs =
     io_bind (preprocess_image me test_image) (\<lambda>source_tensor.
     io_bind (preprocess_video_file me test_video 100) (\<lambda>driving_tensor.
     io_bind (benchmark_runs me source_tensor driving_tensor (nat num_runs) 0 []) (\<lambda>timings.
     (\<lambda>s. case the_predictor s of
            None \<Rightarrow> (Inl (AttributeError ''NoneType has no attribute model_name''), s)
          | Some p \<Rightarrow> (benchmark_results p (length driving_tensor) timings, s)))))"

text \<open>The declared fields of the response model \<open>BenchmarkResult\<close>. Constructing it
  from the result dictionary keeps the declared fields and drops every other key.\<close>

definition BenchmarkResult_fields :: "string list" where
  "BenchmarkResult_fields = [''avg_time_seconds'', ''fps'', ''model_name'', ''device'']"

definition BenchmarkResult :: "(string \<times> pyval) list \<Rightarrow> (string \<times> pyval) list" where
  "BenchmarkResult results = filter (\<lambda>kv. fst kv \<in> set BenchmarkResult_fields) results"

text \<open>\<open>POST /benchmark\<close>. \<open>tmp_source\<close> and \<open>tmp_driving\<close> are the names that
  \<open>NamedTemporaryFile\<close> chose.\<close>

definition benchmark_model ::
  "('f, 't) media_env \<Rightarrow> env \<Rightarrow> path \<Rightarrow> path \<Rightarrow> upload_file \<Rightarrow> upload_file \<Rightarrow> name \<Rightarrow> int \<Rightarrow> app
   \<Rightarrow> (http_exception + (string \<times> pyval) list) \<times> app" where
  "benchmark_model me e tmp_source tmp_driving source_image driving_video mname num_runs s =
     (if the_predictor s = None then (Inl (HTTPException 503 ''No models loaded''), s)
      else
       (case io_bind (write_file me tmp_source (file_data source_image))
                     (\<lambda>_. write_file me tmp_driving (file_data driving_video)) s of
          (Inl _, s1) \<Rightarrow> (Inl internal_server_error, s1)
        | (Inr _, s1) \<Rightarrow>
           (case io_bind (switch_if_needed e mname)
                         (\<lambda>_. benchmark_performance me tmp_source tmp_driving num_runs) s1 of
              (r, s2) \<Rightarrow>
               (case io_bind (remove_file me tmp_source) (\<lambda>_. remove_file me tmp_driving) s2 of
                  (Inl _, s3) \<Rightarrow> (Inl internal_server_error, s3)
                | (Inr _, s3) \<Rightarrow>
                   (case r of
                      Inl _ \<Rightarrow> (Inl internal_server_error, s3)
                    | Inr results \<Rightarrow> (Inr (BenchmarkResult results), s3))))))"

subsection \<open>The service as a transition system\<close>

text \<open>
  Each request handler and each background job runs to its end without yielding (none
  of them awaits), so one transition is one whole handler or one whole job. A submission
  draws an identifier that no task and no pending job carries.
\<close>

datatype request =
    Submit string upload_file upload_file name
  | Worker job
  | Status string
  | Download string
  | Cleanup string
  | Switch name
  | Benchmark path path upload_file upload_file name int

inductive step :: "('f, 't) media_env \<Rightarrow> request \<Rightarrow> app \<Rightarrow> app \<Rightarrow> bool" for me :: "('f, 't) media_env" where
  s_submit:
    "uuid \<notin> dom (current_tasks s) \<Longrightarrow> uuid \<notin> job_task_id ` set (background s) \<Longrightarrow>
     step me (Submit uuid src drv mname) s (snd (generate_motion me uuid src drv mname s))"
| s_worker:
    "background s = js1 @ j # js2 \<Longrightarrow>
     step me (Worker j) s
       (process_motion_transfer me e (job_task_id j) (job_source_path j) (job_driving_path j)
          (job_model_name j) (s\<lparr>background := js1 @ js2\<rparr>))"
| s_status: "step me (Status task_id) s s"
| s_download: "step me (Download task_id) s s"
| s_cleanup: "step me (Cleanup task_id) s (snd (cleanup_task me task_id s))"
| s_switch: "step me (Switch mname) s (snd (switch_model e mname s))"
| s_benchmark:
    "step me (Benchmark t1 t2 src drv mname n) s
       (snd (benchmark_model me e t1 t2 src drv mname n s))"

inductive reach :: "('f, 't) media_env \<Rightarrow> app \<Rightarrow> bool" for me :: "('f, 't) media_env" where
  reach_start: "reach me (startup_event e (app_init fs))"
| reach_step: "reach me s \<Longrightarrow> step me rq s s' \<Longrightarrow> reach me s'"

definition terminal :: "task \<Rightarrow> bool" where
  "terminal t = (status t = ''completed'' \<or> status t = ''error'')"

text \<open>Pending jobs have pairwise different identifiers, and the task of a pending job,
  while it is in the table, is still being processed.\<close>

definition pending_ok :: "app \<Rightarrow> bool" where
  "pending_ok s =
     (distinct (map job_task_id (background s)) \<and>
      (\<forall>j \<in> set (background s). \<forall>t. current_tasks s (job_task_id j) = Some t \<longrightarrow> \<not> terminal t))"

definition current_cached :: "model_manager \<Rightarrow> bool" where
  "current_cached mm = (current_model mm = None \<or> (\<exists>k. loaded_models mm k = current_model mm))"

subsection \<open>What a statement sequence guarantees\<close>

text \<open>
  \<open>hoare P f Q F\<close>: started in a state satisfying \<open>P\<close>, the statements \<open>f\<close> end in a
  state satisfying \<open>Q\<close> with their result when they return, and in a state satisfying
  \<open>F\<close> when they raise.
\<close>

definition hoare :: "(app \<Rightarrow> bool) \<Rightarrow> 'a io \<Rightarrow> ('a \<Rightarrow> app \<Rightarrow> bool) \<Rightarrow> (app \<Rightarrow> bool) \<Rightarrow> bool" where
  "hoare P f Q F =
     (\<forall>s. P s \<longrightarrow> (case f s of (Inl err, s1) \<Rightarrow> F s1 | (Inr x, s1) \<Rightarrow> Q x s1))"

text \<open>Events of a job that neither delete nor move a file, and that write no record
  other than one of the job's own task in status \<open>processing\<close>.\<close>

fun benign :: "string \<Rightarrow> event \<Rightarrow> bool" where
  "benign task_id (TaskWrite i t) = (i = task_id \<and> status t = ''processing'')"
| "benign task_id (TaskDelete i) = False"
| "benign task_id (FileRemove p) = False"
| "benign task_id (FileMove p q) = False"
| "benign task_id (FileWrite p) = True"
| "benign task_id (ImageDecoded p) = True"
| "benign task_id (VideoDecoded p k) = True"
| "benign task_id (Inference n k) = True"

text \<open>\<open>extends task_id out s s1\<close>: from \<open>s\<close> to \<open>s1\<close> the pending jobs are the same, no
  file other than \<open>out\<close> and no task other than \<open>task_id\<close> has changed, and only benign
  events were added.\<close>

definition extends :: "string \<Rightarrow> path \<Rightarrow> app \<Rightarrow> app \<Rightarrow> bool" where
  "extends task_id out s s1 =
     (background s1 = background s \<and>
      (\<forall>p. p \<noteq> out \<longrightarrow> files s1 p = files s p) \<and>
      (\<forall>i. i \<noteq> task_id \<longrightarrow> current_tasks s1 i = current_tasks s i) \<and>
      (\<exists>evs. events s1 = events s @ evs \<and> list_all (benign task_id) evs))"

definition processing_at :: "string \<Rightarrow> app \<Rightarrow> bool" where
  "processing_at task_id s = (\<exists>t. current_tasks s task_id = Some t \<and> status t = ''processing'')"

text \<open>The service after start-up on a machine that has only the FOMM checkpoint.\<close>

definition served :: app where
  "served = startup_event example_env (app_init Map.empty)"

text \<open>A small media environment for running the service on examples: every byte of a
  video file is one frame, the network returns the driving frames, and nothing fails.\<close>

definition example_media :: "(char, char) media_env" where
  "example_media =
     \<lparr>image_open = (\<lambda>c. case c of None \<Rightarrow> Inl (FileNotFoundError ''No such file'')
                              | Some b \<Rightarrow> (case b of [] \<Rightarrow> Inl (OSError ''cannot identify image file'')
                                            | x # _ \<Rightarrow> Inr x)),
      VideoCapture = (\<lambda>c. case c of None \<Rightarrow> \<lparr>is_opened = False, stream = []\<rparr>
                               | Some b \<Rightarrow> \<lparr>is_opened = True, stream = b\<rparr>),
      transform = (\<lambda>f. f),
      forward = (\<lambda>m src drv. Inr drv),
      mimsave = (\<lambda>fs. (None, fs)),
      fs_fault = (\<lambda>_. None),
      splitext_ext = (\<lambda>f. dropWhile (\<lambda>c. c \<noteq> CHR ''.'') f),
      run_seconds = (\<lambda>i. 1 / 2)\<rparr>"

definition png :: upload_file where
  "png = \<lparr>content_type = ''image/png'', filename = ''a.png'', file_data = ''i''\<rparr>"

definition mp4 :: "string \<Rightarrow> upload_file" where
  "mp4 frames = \<lparr>content_type = ''video/mp4'', filename = ''v.mp4'', file_data = frames\<rparr>"

text \<open>The service after one accepted submission whose video has the given frames.\<close>

definition submitted :: "string \<Rightarrow> app" where
  "submitted frames = snd (generate_motion example_media ''t1'' png (mp4 frames) ''fomm'' served)"

text \<open>Statements that leave the task table and the background queue alone.\<close>

definition keeps_tasks :: "'a io \<Rightarrow> bool" where
  "keeps_tasks f =
     (\<forall>s. current_tasks (snd (f s)) = current_tasks s \<and> background (snd (f s)) = background s)"

text \<open>The service after the worker has run the job of that submission.\<close>

definition finished :: app where
  "finished =
     process_motion_transfer example_media example_env ''t1'' ''uploads/t1_source.png''
       ''uploads/t1_driving.mp4'' ''fomm'' ((submitted ''abc'')\<lparr>background := []\<rparr>)"

section \<open>Model manager: loading is idempotent\<close>

lemma load_model_cached:
  "loaded_models (snd s) n = Some m \<Longrightarrow> load_model e n p s = (Inr m, s)"
  by (cases s) (simp add: load_model_def)

lemma load_model_result_cached:
  "load_model e n p s = (Inr m, s') \<Longrightarrow> loaded_models (snd s') n = Some m"
  by (cases s)
     (auto simp: load_model_def Let_def split: option.splits sum.splits if_splits prod.splits)


lemma load_example:
  "load_model example_env ''fomm'' None ([], ModelManager_init ''cpu'') =
     (Inr (Module 0 ''fomm''),
      ([(''fomm'', ''/app/models/fomm/vox-cpk.pth.tar'')],
       (ModelManager_init ''cpu'')\<lparr>loaded_models := [''fomm'' \<mapsto> Module 0 ''fomm'']\<rparr>))"
  by (simp add: load_model_def example_env_def ModelManager_init_def get_default_model_path_def
      load_fomm_model_def load_network_def)

text \<open>
  C6. When a call of \<open>load_model\<close> returns a module, a second call for the same name
  returns that same object (same identity), whatever checkpoint path it is given and
  whatever has happened to the files meanwhile, and it leaves the manager and the log of
  loader invocations as they were: nothing is loaded again.
\<close>

theorem load_model_idempotent:
  "load_model e n p s = (Inr m, s') \<Longrightarrow> load_model e' n p' s' = (Inr m, s')"
  using load_model_result_cached load_model_cached by blast

theorem load_model_idempotent_witness:
  "load_model empty_env ''fomm'' None
     (snd (load_model example_env ''fomm'' None ([], ModelManager_init ''cpu''))) =
   (Inr (Module 0 ''fomm''),
    ([(''fomm'', ''/app/models/fomm/vox-cpk.pth.tar'')],
     (ModelManager_init ''cpu'')\<lparr>loaded_models := [''fomm'' \<mapsto> Module 0 ''fomm'']\<rparr>))"
  using load_model_idempotent [OF load_example, of empty_env None] by (simp add: load_example)

section \<open>Model manager: the current model is a cached one\<close>

lemma load_model_linked:
  "current_linked (snd s) \<Longrightarrow> current_linked (snd (snd (load_model e n p s)))"
  by (cases s)
     (auto simp: load_model_def current_linked_def Let_def load_motion_clone_model_def
        load_fomm_model_def load_network_def
        split: option.splits sum.splits if_splits prod.splits)

lemma set_current_model_linked:
  "current_linked (snd s) \<Longrightarrow> current_linked (snd (snd (set_current_model e n s)))"
  using load_model_linked [of s e n None]
  by (cases s; cases "load_model e n None s")
     (auto simp: set_current_model_def current_linked_def  split: option.splits sum.splits prod.splits)

lemma unload_model_linked:
  "current_linked mm \<Longrightarrow> current_linked (unload_model n mm)"
  by (auto simp: unload_model_def current_linked_def Let_def split: option.splits)

lemma reachable_linked: "reachable s \<Longrightarrow> current_linked (snd s)"
proof (induction rule: reachable.induct)
  case (r_init dev)
  show ?case by (simp add: current_linked_def ModelManager_init_def)
next
  case (r_load s e n p)
  then show ?case using load_model_linked by simp
next
  case (r_set s e n)
  then show ?case using set_current_model_linked by simp
next
  case (r_unload lg mm n)
  then show ?case using unload_model_linked by simp
qed

lemma linked_cached: "current_linked mm \<Longrightarrow> current_cached mm"
  by (auto simp: current_linked_def current_cached_def split: option.splits)

lemma reachable_cached: "reachable s \<Longrightarrow> current_cached (snd s)"
  using reachable_linked linked_cached by blast

lemma unload_current:
  "current_linked mm \<Longrightarrow> current_model_name mm = Some n \<Longrightarrow>
   current_model (unload_model n mm) = None \<and> current_model_name (unload_model n mm) = None"
  by (auto simp: unload_model_def current_linked_def Let_def split: option.splits)

lemma unload_other:
  "current_model_name mm \<noteq> Some n \<Longrightarrow>
   current_model (unload_model n mm) = current_model mm \<and>
   current_model_name (unload_model n mm) = current_model_name mm"
  by (auto simp: unload_model_def Let_def)

lemma unload_not_loaded:
  "loaded_models mm n = None \<Longrightarrow> unload_model n mm = mm"
  by (auto simp: unload_model_def)

lemma set_current_example:
  "set_current_model example_env ''fomm'' ([], ModelManager_init ''cpu'') =
     (Inr (Module 0 ''fomm''),
      ([(''fomm'', ''/app/models/fomm/vox-cpk.pth.tar'')],
       \<lparr>device = ''cpu'', loaded_models = [''fomm'' \<mapsto> Module 0 ''fomm''],
        current_model = Some (Module 0 ''fomm''), current_model_name = Some ''fomm''\<rparr>))"
  by (simp add: set_current_model_def load_example) (simp add: ModelManager_init_def)

text \<open>
  C7. In every registry state that \<open>load_model\<close>, \<open>set_current_model\<close> and
  \<open>unload_model\<close> can produce from a fresh manager, the current model is \<open>None\<close> or
  a module of the cache, and the same holds after one more call of each of the three.
  Unloading the current name clears the current model and name; unloading any other name
  leaves them as they were; unloading a name that is not loaded changes nothing at all.
\<close>

theorem registry_current_cached:
  assumes "reachable (lg, mm)"
  shows "current_cached mm
       \<and> current_cached (snd (snd (load_model e1 n1 p1 (lg, mm))))
       \<and> current_cached (snd (snd (set_current_model e2 n2 (lg, mm))))
       \<and> current_cached (unload_model n mm)
       \<and> (current_model_name mm = Some n \<longrightarrow>
            current_model (unload_model n mm) = None \<and>
            current_model_name (unload_model n mm) = None)
       \<and> (current_model_name mm \<noteq> Some n \<longrightarrow>
            current_model (unload_model n mm) = current_model mm \<and>
            current_model_name (unload_model n mm) = current_model_name mm)
       \<and> (n \<notin> dom (loaded_models mm) \<longrightarrow> unload_model n mm = mm)"
proof -
  have l: "current_linked mm" using reachable_linked [OF assms] by simp
  have a: "current_cached mm" using l by (rule linked_cached)
  have b: "current_cached (snd (snd (load_model e1 n1 p1 (lg, mm))))"
    using reachable_cached [OF reachable.r_load [OF assms]] by simp
  have c: "current_cached (snd (snd (set_current_model e2 n2 (lg, mm))))"
    using reachable_cached [OF reachable.r_set [OF assms]] by simp
  have d: "current_cached (unload_model n mm)"
    using reachable_cached [OF reachable.r_unload [OF assms]] by simp
  have f: "n \<notin> dom (loaded_models mm) \<longrightarrow> unload_model n mm = mm"
    using unload_not_loaded [of mm n] by auto
  show ?thesis
    using a b c d f unload_current [OF l, of n] unload_other [of mm n] by blast
qed

theorem registry_current_cached_witness:
  "reachable ([(''fomm'', ''/app/models/fomm/vox-cpk.pth.tar'')],
       \<lparr>device = ''cpu'', loaded_models = [''fomm'' \<mapsto> Module 0 ''fomm''],
        current_model = Some (Module 0 ''fomm''), current_model_name = Some ''fomm''\<rparr>)
   \<and> current_model (unload_model ''fomm''
       \<lparr>device = ''cpu'', loaded_models = [''fomm'' \<mapsto> Module 0 ''fomm''],
        current_model = Some (Module 0 ''fomm''), current_model_name = Some ''fomm''\<rparr>) = None
   \<and> unload_model ''motion_clone''
       \<lparr>device = ''cpu'', loaded_models = [''fomm'' \<mapsto> Module 0 ''fomm''],
        current_model = Some (Module 0 ''fomm''), current_model_name = Some ''fomm''\<rparr> =
       \<lparr>device = ''cpu'', loaded_models = [''fomm'' \<mapsto> Module 0 ''fomm''],
        current_model = Some (Module 0 ''fomm''), current_model_name = Some ''fomm''\<rparr>"
proof -
  let ?lg = "[(''fomm'', ''/app/models/fomm/vox-cpk.pth.tar'')]"
  let ?mm = "\<lparr>device = ''cpu'', loaded_models = [''fomm'' \<mapsto> Module 0 ''fomm''],
        current_model = Some (Module 0 ''fomm''), current_model_name = Some ''fomm''\<rparr>"
  have "reachable (snd (set_current_model example_env ''fomm'' ([], ModelManager_init ''cpu'')))"
    by (rule reachable.r_set [OF reachable.r_init])
  then have r: "reachable (?lg, ?mm)" by (simp add: set_current_example)
  have "current_model (unload_model ''fomm'' ?mm) = None"
    using registry_current_cached [OF r, of _ _ _ _ _ "''fomm''"] by simp
  moreover have "unload_model ''motion_clone'' ?mm = ?mm"
    using registry_current_cached [OF r, of _ _ _ _ _ "''motion_clone''"] by simp
  ultimately show ?thesis using r by simp
qed

section \<open>Switching models through the service\<close>







lemma served_eq:
  "served =
     \<lparr>manager = Some \<lparr>device = ''cpu'', loaded_models = [''fomm'' \<mapsto> Module 0 ''fomm''],
                      current_model = None, current_model_name = None\<rparr>,
      loader_calls = [(''fomm'', ''/app/models/fomm/vox-cpk.pth.tar'')],
      the_predictor = Some \<lparr>model = Some (Module 0 ''fomm''), model_name = ''fomm'', pdevice = ''auto''\<rparr>,
      current_tasks = Map.empty, files = Map.empty, background = [], events = []\<rparr>"
  by (simp add: served_def startup_event_def Motion3DPredictor_init_def get_model_manager_def
      app_init_def load_model_def get_default_model_path_def example_env_def ModelManager_init_def
      load_fomm_model_def load_network_def Let_def)



section \<open>Video decoding\<close>


lemma preprocess_loop_closed:
  "\<not> opened \<Longrightarrow> preprocess_loop tr opened n xs c acc = acc"
  by (cases xs) simp_all



lemma extract_loop_closed:
  "\<not> opened \<Longrightarrow> extract_loop opened n xs c acc = acc"
  by (cases xs) simp_all

text \<open>
  C3 (amended). From a video that yields no frame (the container does not open, or the
  first read already fails) \<open>preprocess_video\<close>, the decoder of the inference pipeline,
  raises \<open>ValueError\<close>; it never returns an empty sequence, whatever the input and the
  limit. The helper \<open>VideoProcessor.extract_frames\<close> returns the empty list for such a
  video.
\<close>

theorem no_frames_is_an_error:
  "(\<not> is_opened cap \<or> stream cap = [] \<longrightarrow>
      preprocess_video tr cap n = Inl (ValueError ''No frames could be extracted from video'')
      \<and> extract_frames cap m = [])
   \<and> preprocess_video tr cap n \<noteq> Inr []"
proof -
  have "preprocess_video tr cap n \<noteq> Inr []"
    by (simp add: preprocess_video_def Let_def)
  moreover have "\<not> is_opened cap \<or> stream cap = [] \<longrightarrow>
      preprocess_video tr cap n = Inl (ValueError ''No frames could be extracted from video'')
      \<and> extract_frames cap m = []"
    by (auto simp: preprocess_video_def extract_frames_def preprocess_loop_closed
        extract_loop_closed)
  ultimately show ?thesis by simp
qed

theorem no_frames_is_an_error_witness:
  "preprocess_video (\<lambda>f::nat. f) \<lparr>is_opened = True, stream = []\<rparr> 100 =
     Inl (ValueError ''No frames could be extracted from video'')
   \<and> preprocess_video (\<lambda>f::nat. f) \<lparr>is_opened = False, stream = [7]\<rparr> 100 =
     Inl (ValueError ''No frames could be extracted from video'')"
  using no_frames_is_an_error [of "\<lparr>is_opened = True, stream = []\<rparr>" "\<lambda>f::nat. f" 100]
    no_frames_is_an_error [of "\<lparr>is_opened = False, stream = [7]\<rparr>" "\<lambda>f::nat. f" 100]
  by simp

text \<open>
  C3 as stated fails for \<open>VideoProcessor.extract_frames\<close>: for an empty video it returns
  the empty list as its result.
\<close>

theorem extract_frames_empty_counterexample:
  "extract_frames \<lparr>is_opened = True, stream = ([] :: nat list)\<rparr> None = []"
  by (simp add: extract_frames_def)




section \<open>The background worker\<close>

lemma hoare_bind:
  assumes "hoare P f Q F" and "\<And>x. hoare (Q x) (g x) R F"
  shows "hoare P (io_bind f g) R F"
  unfolding hoare_def io_bind_def
proof (intro allI impI)
  fix s assume p: "P s"
  obtain r s1 where fs: "f s = (r, s1)" by (cases "f s")
  show "case (case f s of (Inl err, s') \<Rightarrow> (Inl err, s') | (Inr x, s') \<Rightarrow> g x s') of
          (Inl err, s1) \<Rightarrow> F s1 | (Inr x, s1) \<Rightarrow> R x s1"
  proof (cases r)
    case (Inl err)
    then show ?thesis using assms(1) p fs by (auto simp: hoare_def)
  next
    case (Inr x)
    then have "Q x s1" using assms(1) p fs by (auto simp: hoare_def)
    then show ?thesis using assms(2) [of x] fs Inr by (auto simp: hoare_def)
  qed
qed

lemma hoare_return: "(\<And>s. P s \<Longrightarrow> Q x s) \<Longrightarrow> hoare P (io_return x) Q F"
  by (simp add: hoare_def io_return_def)

lemma hoare_returns: "hoare P f Q F \<Longrightarrow> P s \<Longrightarrow> f s = (Inr x, s1) \<Longrightarrow> Q x s1"
  by (auto simp: hoare_def)

lemma hoare_raises: "hoare P f Q F \<Longrightarrow> P s \<Longrightarrow> f s = (Inl err, s1) \<Longrightarrow> F s1"
  by (auto simp: hoare_def)

lemma io_bind_cases:
  assumes "io_bind f g s = (r, s2)"
  obtains (raised) err where "f s = (Inl err, s2)" and "r = Inl err"
        | (continued) x s1 where "f s = (Inr x, s1)" and "g x s1 = (r, s2)"
  using assms by (auto simp: io_bind_def split: prod.splits sum.splits)

lemma extends_refl: "extends tid out s s"
  by (simp add: extends_def)

lemma extends_trans:
  assumes "extends tid out s s1" and "extends tid out s1 s2"
  shows "extends tid out s s2"
proof -
  obtain evs1 where e1: "events s1 = events s @ evs1" "list_all (benign tid) evs1"
    using assms(1) by (auto simp: extends_def)
  obtain evs2 where e2: "events s2 = events s1 @ evs2" "list_all (benign tid) evs2"
    using assms(2) by (auto simp: extends_def)
  have "events s2 = events s @ (evs1 @ evs2) \<and> list_all (benign tid) (evs1 @ evs2)"
    using e1 e2 by simp
  then have "\<exists>evs. events s2 = events s @ evs \<and> list_all (benign tid) evs" by blast
  then show ?thesis using assms by (simp add: extends_def)
qed

lemma extends_emit: "benign tid ev \<Longrightarrow> extends tid out s (emit ev s)"
  by (simp add: extends_def emit_def)

lemma extends_set_task: "status t = ''processing'' \<Longrightarrow> extends tid out s (set_task tid t s)"
  by (simp add: extends_def emit_def set_task_def)

lemma processing_set_task: "status t = ''processing'' \<Longrightarrow> processing_at tid (set_task tid t s)"
  by (simp add: processing_at_def emit_def set_task_def)

lemma hoare_update_status:
  "hoare (\<lambda>s. s = s0) (update_task tid (\<lambda>t. t\<lparr>status := ''processing''\<rparr>))
     (\<lambda>_ s. extends tid out s0 s \<and> processing_at tid s) (extends tid out s0)"
  by (auto simp: hoare_def update_task_def extends_refl extends_set_task processing_set_task
      split: option.splits)

lemma hoare_update_progress:
  "hoare (\<lambda>s. extends tid out s0 s \<and> processing_at tid s)
     (update_task tid (\<lambda>t. t\<lparr>progress := k\<rparr>))
     (\<lambda>_ s. extends tid out s0 s \<and> processing_at tid s) (extends tid out s0)"
  unfolding hoare_def
proof (intro allI impI)
  fix s assume a: "extends tid out s0 s \<and> processing_at tid s"
  then obtain t where t: "current_tasks s tid = Some t" "status t = ''processing''"
    by (auto simp: processing_at_def)
  have st: "status (t\<lparr>progress := k\<rparr>) = ''processing''" using t by simp
  have "extends tid out s0 (set_task tid (t\<lparr>progress := k\<rparr>) s)"
    using a extends_set_task [OF st] extends_trans by blast
  then show "case update_task tid (\<lambda>t. t\<lparr>progress := k\<rparr>) s of
      (Inl err, s1) \<Rightarrow> extends tid out s0 s1
    | (Inr x, s1) \<Rightarrow> extends tid out s0 s1 \<and> processing_at tid s1"
    using t processing_set_task [OF st] by (simp add: update_task_def)
qed

lemma switch_if_needed_frame:
  "switch_if_needed e n s = (r, s1) \<Longrightarrow>
   background s1 = background s \<and> files s1 = files s \<and> current_tasks s1 = current_tasks s \<and>
   events s1 = events s"
  by (auto simp: switch_if_needed_def switch_predictor_def split: option.splits if_splits prod.splits sum.splits)

lemma hoare_switch:
  "hoare (\<lambda>s. extends tid out s0 s \<and> processing_at tid s) (switch_if_needed e n)
     (\<lambda>_ s. extends tid out s0 s \<and> processing_at tid s) (extends tid out s0)"
  unfolding hoare_def
proof (intro allI impI)
  fix s assume a: "extends tid out s0 s \<and> processing_at tid s"
  obtain r s1 where f: "switch_if_needed e n s = (r, s1)" by (cases "switch_if_needed e n s")
  have "extends tid out s0 s1 \<and> processing_at tid s1"
    using a switch_if_needed_frame [OF f] by (auto simp: extends_def processing_at_def)
  then show "case switch_if_needed e n s of
      (Inl err, s1) \<Rightarrow> extends tid out s0 s1
    | (Inr x, s1) \<Rightarrow> extends tid out s0 s1 \<and> processing_at tid s1"
    using f by (cases r) auto
qed


lemma hoare_frame_step:
  assumes "\<And>s r s1. f s = (r, s1) \<Longrightarrow> extends tid out s s1 \<and> current_tasks s1 = current_tasks s"
  shows "hoare (\<lambda>s. extends tid out s0 s \<and> processing_at tid s) f
           (\<lambda>_ s. extends tid out s0 s \<and> processing_at tid s) (extends tid out s0)"
  unfolding hoare_def
proof (intro allI impI)
  fix s assume a: "extends tid out s0 s \<and> processing_at tid s"
  obtain r s1 where f: "f s = (r, s1)" by (cases "f s")
  have "extends tid out s0 s1 \<and> processing_at tid s1"
    using a assms [OF f] extends_trans [of tid out s0 s s1] by (auto simp: processing_at_def)
  then show "case f s of
      (Inl err, s1) \<Rightarrow> extends tid out s0 s1
    | (Inr x, s1) \<Rightarrow> extends tid out s0 s1 \<and> processing_at tid s1"
    using f by (cases r) auto
qed

lemma emit_fields [simp]:
  "current_tasks (emit ev s) = current_tasks s"
  "files (emit ev s) = files s"
  "background (emit ev s) = background s"
  "events (emit ev s) = events s @ [ev]"
  "manager (emit ev s) = manager s"
  "the_predictor (emit ev s) = the_predictor s"
  "loader_calls (emit ev s) = loader_calls s"
  by (simp_all add: emit_def)

lemma preprocess_image_frame:
  "preprocess_image me p s = (r, s1) \<Longrightarrow> extends tid out s s1 \<and> current_tasks s1 = current_tasks s"
  by (auto simp: preprocess_image_def extends_refl extends_emit split: sum.splits)

lemma preprocess_video_file_frame:
  "preprocess_video_file me p n s = (r, s1) \<Longrightarrow> extends tid out s s1 \<and> current_tasks s1 = current_tasks s"
  by (auto simp: preprocess_video_file_def extends_refl extends_emit split: sum.splits)

lemma run_model_frame:
  "run_model me a b s = (r, s1) \<Longrightarrow> extends tid out s s1 \<and> current_tasks s1 = current_tasks s"
  by (auto simp: run_model_def extends_refl extends_emit split: sum.splits option.splits)

lemma save_output_video_frame:
  "save_output_video me a out s = (r, s1) \<Longrightarrow> extends tid out s s1 \<and> current_tasks s1 = current_tasks s"
  by (auto simp: save_output_video_def extends_def split: prod.splits option.splits)

lemma hoare_bind_inv:
  assumes "hoare P f (\<lambda>_. I) F" and "\<And>x. hoare I (g x) R F"
  shows "hoare P (io_bind f g) R F"
  using assms by (rule hoare_bind)

lemma hoare_generate:
  "hoare (\<lambda>s. extends tid out s0 s \<and> processing_at tid s)
     (predictor_generate_motion me src drv out)
     (\<lambda>_ s. extends tid out s0 s \<and> processing_at tid s) (extends tid out s0)"
  unfolding predictor_generate_motion_def
  apply (rule hoare_bind_inv [where I = "\<lambda>s. extends tid out s0 s \<and> processing_at tid s"])
   apply (rule hoare_frame_step [OF preprocess_image_frame], assumption)
  apply (rule hoare_bind_inv [where I = "\<lambda>s. extends tid out s0 s \<and> processing_at tid s"])
   apply (rule hoare_frame_step [OF preprocess_video_file_frame], assumption)
  apply (rule hoare_bind_inv [where I = "\<lambda>s. extends tid out s0 s \<and> processing_at tid s"])
   apply (rule hoare_frame_step [OF run_model_frame], assumption)
  apply (rule hoare_bind_inv [where I = "\<lambda>s. extends tid out s0 s \<and> processing_at tid s"])
   apply (rule hoare_frame_step [OF save_output_video_frame], assumption)
  apply (rule hoare_return, assumption)
  done

lemma hoare_generate_stage:
  "hoare (\<lambda>s. s = s0) (generate_stage me e tid src drv mname)
     (\<lambda>_ s. extends tid (worker_output_path tid) s0 s \<and> processing_at tid s)
     (extends tid (worker_output_path tid) s0)"
  unfolding generate_stage_def
  apply (rule hoare_bind_inv [where I = "\<lambda>s. extends tid (worker_output_path tid) s0 s \<and> processing_at tid s"])
   apply (rule hoare_update_status)
  apply (rule hoare_bind_inv [where I = "\<lambda>s. extends tid (worker_output_path tid) s0 s \<and> processing_at tid s"])
   apply (rule hoare_update_progress)
  apply (rule hoare_bind_inv [where I = "\<lambda>s. extends tid (worker_output_path tid) s0 s \<and> processing_at tid s"])
   apply (rule hoare_switch)
  apply (rule hoare_bind_inv [where I = "\<lambda>s. extends tid (worker_output_path tid) s0 s \<and> processing_at tid s"])
   apply (rule hoare_update_progress)
  apply (rule hoare_bind_inv [where I = "\<lambda>s. extends tid (worker_output_path tid) s0 s \<and> processing_at tid s"])
   apply (rule hoare_generate)
  apply (rule hoare_bind_inv [where I = "\<lambda>s. extends tid (worker_output_path tid) s0 s \<and> processing_at tid s"])
   apply (rule hoare_update_progress)
  apply (rule hoare_return, assumption)
  done

lemma update_task_files: "update_task tid f s = (r, s1) \<Longrightarrow> files s1 = files s"
  by (auto simp: update_task_def set_task_def emit_def split: option.splits)

lemma save_output_video_written:
  "save_output_video me a out s = (Inr u, s1) \<Longrightarrow> files s1 out \<noteq> None"
  by (auto simp: save_output_video_def emit_def split: prod.splits option.splits)

lemma predictor_generate_motion_result:
  assumes "predictor_generate_motion me src drv out s = (Inr rp, s1)"
  shows "rp = out \<and> files s1 out \<noteq> None"
  using assms unfolding predictor_generate_motion_def
  by (elim io_bind_cases) (auto simp: io_return_def dest: save_output_video_written)

lemma generate_stage_result:
  assumes "generate_stage me e tid src drv mname s = (Inr rp, s1)"
  shows "rp = worker_output_path tid \<and> files s1 rp \<noteq> None"
  using assms unfolding generate_stage_def
  by (elim io_bind_cases)
     (auto simp: io_return_def dest!: predictor_generate_motion_result update_task_files)


lemma generate_stage_extends:
  assumes "generate_stage me e tid src drv mname s = (r, s1)"
  shows "extends tid (worker_output_path tid) s s1"
proof (cases r)
  case (Inl err)
  then show ?thesis using hoare_raises [OF hoare_generate_stage _ assms [unfolded Inl]] by simp
next
  case (Inr rp)
  then show ?thesis using hoare_returns [OF hoare_generate_stage _ assms [unfolded Inr]] by simp
qed

lemma move_file_result:
  "move_file me src dst s = (r, s1) \<Longrightarrow>
   (\<exists>err. r = Inl err \<and> s1 = s) \<or>
   (\<exists>c. r = Inr () \<and> files s src = Some c \<and>
        s1 = emit (FileMove src dst) (s\<lparr>files := ((files s)(src := None))(dst \<mapsto> c)\<rparr>))"
  unfolding move_file_def by (cases "fs_fault me (OpMove src dst)"; cases "files s src") auto

lemma move_file_cases:
  assumes "move_file me src dst s = (r, s1)"
  obtains (failed) err where "r = Inl err" and "s1 = s"
        | (moved) c where "r = Inr ()" and "files s src = Some c"
            and "s1 = emit (FileMove src dst) (s\<lparr>files := ((files s)(src := None))(dst \<mapsto> c)\<rparr>)"
  using move_file_result [OF assms] by blast

lemma remove_file_result:
  "remove_file me p s = (r, s1) \<Longrightarrow>
   (\<exists>err. r = Inl err \<and> s1 = s) \<or>
   (r = Inr () \<and> s1 = emit (FileRemove p) (s\<lparr>files := (files s)(p := None)\<rparr>))"
  unfolding remove_file_def by (cases "fs_fault me (OpRemove p)"; cases "files s p") auto

lemma remove_file_cases:
  assumes "remove_file me p s = (r, s1)"
  obtains (failed) err where "r = Inl err" and "s1 = s"
        | (removed) "r = Inr ()" and "s1 = emit (FileRemove p) (s\<lparr>files := (files s)(p := None)\<rparr>)"
  using remove_file_result [OF assms] by blast

text \<open>The state in which the output has been generated and moved.\<close>

lemma produce_output_returns:
  assumes "produce_output me e tid src drv mname s = (Inr fp, s1)"
  shows "fp = worker_final_path tid \<and>
         (\<exists>s6 c. extends tid (worker_output_path tid) s s6 \<and>
                  files s6 (worker_output_path tid) = Some c \<and>
                  s1 = emit (FileMove (worker_output_path tid) (worker_final_path tid))
                         (s6\<lparr>files := ((files s6)(worker_output_path tid := None))
                                          (worker_final_path tid \<mapsto> c)\<rparr>))"
proof -
  from assms obtain rp s6 where g: "generate_stage me e tid src drv mname s = (Inr rp, s6)"
    and m: "io_bind (move_file me rp (worker_final_path tid))
              (\<lambda>_. io_return (worker_final_path tid)) s6 = (Inr fp, s1)"
    unfolding produce_output_def by (rule io_bind_cases) auto
  have rp: "rp = worker_output_path tid" using generate_stage_result [OF g] by simp
  from m obtain u where mv: "move_file me rp (worker_final_path tid) s6 = (Inr u, s1)"
    and fp: "fp = worker_final_path tid"
    by (elim io_bind_cases) (auto simp: io_return_def)
  from mv obtain c where c: "files s6 rp = Some c"
    and s1: "s1 = emit (FileMove rp (worker_final_path tid))
                (s6\<lparr>files := ((files s6)(rp := None))(worker_final_path tid \<mapsto> c)\<rparr>)"
    by (rule move_file_cases) auto
  have ex: "extends tid (worker_output_path tid) s s6"
    using g by (rule generate_stage_extends)
  have "extends tid (worker_output_path tid) s s6 \<and>
        files s6 (worker_output_path tid) = Some c \<and>
        s1 = emit (FileMove (worker_output_path tid) (worker_final_path tid))
               (s6\<lparr>files := ((files s6)(worker_output_path tid := None))
                                (worker_final_path tid \<mapsto> c)\<rparr>)"
    using ex c s1 unfolding rp by simp
  then show ?thesis using fp by blast
qed

lemma produce_output_raises:
  assumes "produce_output me e tid src drv mname s = (Inl err, s1)"
  shows "extends tid (worker_output_path tid) s s1"
proof -
  from assms show ?thesis unfolding produce_output_def
  proof (cases rule: io_bind_cases)
    case (raised err')
    then show ?thesis using generate_stage_extends by blast
  next
    case (continued rp s6)
    from continued(2) have "s1 = s6"
    proof (cases rule: io_bind_cases)
      case (raised err'')
      from raised(1) show ?thesis by (rule move_file_cases) auto
    next
      case (continued u s7)
      then show ?thesis by (simp add: io_return_def)
    qed
    then show ?thesis using continued(1) generate_stage_extends by blast
  qed
qed


lemma try_block_raises:
  assumes "try_block me e tid src drv mname s = (Inl err, s1)"
  shows "background s1 = background s
       \<and> (\<forall>i. i \<noteq> tid \<longrightarrow> current_tasks s1 i = current_tasks s i)
       \<and> (\<exists>evs. events s1 = events s @ evs \<and>
             (\<forall>i t. TaskWrite i t \<in> set evs \<longrightarrow> i = tid \<and> status t = ''processing''))"
    (is "?C")
proof -
  have key: "?C"
    if ex: "extends tid (worker_output_path tid) s s6"
      and a: "background s1 = background s6" "current_tasks s1 = current_tasks s6"
        "events s1 = events s6 @ evs'" "\<forall>i t. TaskWrite i t \<notin> set evs'"
    for s6 evs'
  proof -
    from ex obtain evs where evs: "events s6 = events s @ evs" "list_all (benign tid) evs"
      by (auto simp: extends_def)
    have w: "\<forall>i t. TaskWrite i t \<in> set evs \<longrightarrow> i = tid \<and> status t = ''processing''"
    proof (intro allI impI)
      fix i t assume m: "TaskWrite i t \<in> set evs"
      then have "benign tid (TaskWrite i t)" using evs(2) unfolding list_all_iff by blast
      then show "i = tid \<and> status t = ''processing''" by simp
    qed
    have "events s1 = events s @ (evs @ evs')" using a evs by simp
    moreover have "\<forall>i t. TaskWrite i t \<in> set (evs @ evs') \<longrightarrow> i = tid \<and> status t = ''processing''"
      using w a(4) by auto
    ultimately have "\<exists>evs. events s1 = events s @ evs \<and>
             (\<forall>i t. TaskWrite i t \<in> set evs \<longrightarrow> i = tid \<and> status t = ''processing'')"
      by blast
    then show ?thesis using ex a by (simp add: extends_def)
  qed
  from assms show ?thesis unfolding try_block_def
  proof (cases rule: io_bind_cases)
    case (raised err')
    have "extends tid (worker_output_path tid) s s1"
      using raised(1) by (rule produce_output_raises)
    then show ?thesis using key [of s1 "[]"] by simp
  next
    case (continued fp s7)
    from produce_output_returns [OF continued(1)] obtain s6 c where
          ex: "extends tid (worker_output_path tid) s s6"
      and s7: "s7 = emit (FileMove (worker_output_path tid) (worker_final_path tid))
                    (s6\<lparr>files := ((files s6)(worker_output_path tid := None))
                                     (worker_final_path tid \<mapsto> c)\<rparr>)"
      by auto
    from continued(2) show ?thesis
    proof (cases rule: io_bind_cases)
      case (raised err')
      from raised(1) have "s1 = s7" by (rule remove_file_cases) auto
      then show ?thesis
        using key [OF ex, of "[FileMove (worker_output_path tid) (worker_final_path tid)]"] s7
        by simp
    next
      case (continued u s8)
      from continued(1) have s8: "s8 = emit (FileRemove src) (s7\<lparr>files := (files s7)(src := None)\<rparr>)"
        by (rule remove_file_cases) auto
      from continued(2) have "s1 = s8"
      proof (cases rule: io_bind_cases)
        case (raised err'')
        from raised(1) show ?thesis by (rule remove_file_cases) auto
      next
        case (continued u' s9)
        then show ?thesis by simp
      qed
      then show ?thesis
        using key [OF ex, of "[FileMove (worker_output_path tid) (worker_final_path tid),
                               FileRemove src]"] s7 s8
        by simp
    qed
  qed
qed

lemma submitted_eq:
  "submitted frames =
     \<lparr>manager = Some \<lparr>device = ''cpu'', loaded_models = [''fomm'' \<mapsto> Module 0 ''fomm''],
                      current_model = None, current_model_name = None\<rparr>,
      loader_calls = [(''fomm'', ''/app/models/fomm/vox-cpk.pth.tar'')],
      the_predictor = Some \<lparr>model = Some (Module 0 ''fomm''), model_name = ''fomm'', pdevice = ''auto''\<rparr>,
      current_tasks = [''t1'' \<mapsto> \<lparr>status = ''processing'', progress = 0, output_path = None, error = None\<rparr>],
      files = [''uploads/t1_source.png'' \<mapsto> ''i'', ''uploads/t1_driving.mp4'' \<mapsto> frames],
      background = [\<lparr>job_task_id = ''t1'', job_source_path = ''uploads/t1_source.png'',
                     job_driving_path = ''uploads/t1_driving.mp4'', job_model_name = ''fomm''\<rparr>],
      events = [FileWrite ''uploads/t1_source.png'', FileWrite ''uploads/t1_driving.mp4'',
                TaskWrite ''t1'' \<lparr>status = ''processing'', progress = 0, output_path = None, error = None\<rparr>]\<rparr>"
  by (simp add: submitted_def generate_motion_def served_eq png_def mp4_def startswith_def
      path_join_def UPLOAD_DIR_def example_media_def write_file_def set_task_def emit_def Let_def)






section \<open>Submitting a generation request\<close>

text \<open>
  C2 (amended). While a predictor is loaded: a submission whose two content types pass
  validation and whose uploads can be stored is answered at once with the task
  identifier; the service has then stored both uploads under the task's paths, created
  the task record with status \<open>processing\<close> and progress 0, and appended one job to the
  background queue; nothing else has changed, so no decoding or inference has run. A
  submission that fails validation is answered with status code 400 and leaves the
  service state, the task table included, as it was.
\<close>

theorem submit_outcome:
  assumes "the_predictor s \<noteq> None"
  shows
    "(startswith (content_type src) ''image/'' \<and> startswith (content_type drv) ''video/'' \<and>
      fs_fault me (OpWrite (path_join UPLOAD_DIR (uuid @ ''_source'' @ splitext_ext me (filename src)))) = None \<and>
      fs_fault me (OpWrite (path_join UPLOAD_DIR (uuid @ ''_driving'' @ splitext_ext me (filename drv)))) = None
      \<longrightarrow>
      generate_motion me uuid src drv mname s =
        (Inr \<lparr>r_task_id = uuid, r_status = ''processing'', r_output_path = None, r_error = None\<rparr>,
         s\<lparr>files := (files s)
               (path_join UPLOAD_DIR (uuid @ ''_source'' @ splitext_ext me (filename src)) \<mapsto> file_data src,
                path_join UPLOAD_DIR (uuid @ ''_driving'' @ splitext_ext me (filename drv)) \<mapsto> file_data drv),
            current_tasks := (current_tasks s)
               (uuid \<mapsto> \<lparr>status = ''processing'', progress = 0, output_path = None, error = None\<rparr>),
            background := background s @
               [\<lparr>job_task_id = uuid,
                 job_source_path = path_join UPLOAD_DIR (uuid @ ''_source'' @ splitext_ext me (filename src)),
                 job_driving_path = path_join UPLOAD_DIR (uuid @ ''_driving'' @ splitext_ext me (filename drv)),
                 job_model_name = mname\<rparr>],
            events := events s @
               [FileWrite (path_join UPLOAD_DIR (uuid @ ''_source'' @ splitext_ext me (filename src))),
                FileWrite (path_join UPLOAD_DIR (uuid @ ''_driving'' @ splitext_ext me (filename drv))),
                TaskWrite uuid \<lparr>status = ''processing'', progress = 0, output_path = None, error = None\<rparr>]\<rparr>))
   \<and> (\<not> (startswith (content_type src) ''image/'' \<and> startswith (content_type drv) ''video/'')
      \<longrightarrow> (\<exists>d. generate_motion me uuid src drv mname s = (Inl (HTTPException 400 d), s)))"
  using assms
  by (auto simp: generate_motion_def write_file_def set_task_def emit_def Let_def)

theorem submit_outcome_witness:
  "fst (generate_motion example_media ''t1'' png (mp4 ''abc'') ''fomm'' served) =
     Inr \<lparr>r_task_id = ''t1'', r_status = ''processing'', r_output_path = None, r_error = None\<rparr>
   \<and> (\<exists>d. generate_motion example_media ''t2'' (mp4 ''abc'') png ''fomm'' served =
          (Inl (HTTPException 400 d), served))"
proof -
  have p: "the_predictor served \<noteq> None" by (simp add: served_eq)
  have a: "fst (generate_motion example_media ''t1'' png (mp4 ''abc'') ''fomm'' served) =
     Inr \<lparr>r_task_id = ''t1'', r_status = ''processing'', r_output_path = None, r_error = None\<rparr>"
    using submit_outcome [OF p, of png "mp4 ''abc''" example_media "''t1''" "''fomm''"]
    by (simp add: png_def mp4_def startswith_def example_media_def)
  have b: "\<exists>d. generate_motion example_media ''t2'' (mp4 ''abc'') png ''fomm'' served =
          (Inl (HTTPException 400 d), served)"
    using submit_outcome [OF p, of "mp4 ''abc''" png example_media "''t2''" "''fomm''"]
    by (simp add: png_def mp4_def startswith_def)
  show ?thesis using a b by simp
qed

text \<open>
  C2 as stated fails on the initial status: the record that a submission creates has the
  status \<open>processing\<close>, the same status the worker writes when it starts; the service
  has no queued status.
\<close>

theorem submit_status_counterexample:
  "map_option status (current_tasks (submitted ''abc'') ''t1'') = Some ''processing''
   \<and> map_option status (current_tasks (submitted ''abc'') ''t1'') \<noteq> Some ''queued''
   \<and> fst (generate_motion example_media ''t1'' png (mp4 ''abc'') ''fomm'' served) =
       Inr \<lparr>r_task_id = ''t1'', r_status = ''processing'', r_output_path = None, r_error = None\<rparr>"
  by (simp add: submitted_eq)
     (simp add: generate_motion_def served_eq png_def mp4_def startswith_def
        path_join_def UPLOAD_DIR_def example_media_def write_file_def set_task_def emit_def Let_def)

section \<open>Terminal states of a task\<close>

lemma keeps_tasksD:
  "keeps_tasks f \<Longrightarrow> f s = (r, s1) \<Longrightarrow>
   current_tasks s1 = current_tasks s \<and> background s1 = background s"
  by (auto simp: keeps_tasks_def dest: spec [of _ s])

lemma keeps_tasks_bind:
  assumes "keeps_tasks f" and "\<And>x. keeps_tasks (g x)"
  shows "keeps_tasks (io_bind f g)"
  unfolding keeps_tasks_def
proof
  fix s
  obtain r s1 where f: "f s = (r, s1)" by (cases "f s")
  note a = keeps_tasksD [OF assms(1) f]
  show "current_tasks (snd (io_bind f g s)) = current_tasks s \<and>
        background (snd (io_bind f g s)) = background s"
  proof (cases r)
    case (Inl err)
    then show ?thesis using f a by (simp add: io_bind_def)
  next
    case (Inr x)
    obtain r2 s2 where g: "g x s1 = (r2, s2)" by (cases "g x s1")
    then show ?thesis using f a Inr keeps_tasksD [OF assms(2) g] by (simp add: io_bind_def)
  qed
qed

lemma keeps_tasks_write_file: "keeps_tasks (write_file me p c)"
  by (simp add: keeps_tasks_def write_file_def split: option.splits)

lemma keeps_tasks_remove_file: "keeps_tasks (remove_file me p)"
  by (simp add: keeps_tasks_def remove_file_def split: option.splits)

lemma keeps_tasks_switch: "keeps_tasks (switch_if_needed e n)"
  unfolding keeps_tasks_def
proof
  fix s
  obtain r s1 where f: "switch_if_needed e n s = (r, s1)" by (cases "switch_if_needed e n s")
  show "current_tasks (snd (switch_if_needed e n s)) = current_tasks s \<and>
        background (snd (switch_if_needed e n s)) = background s"
    using switch_if_needed_frame [OF f] f by simp
qed

lemma keeps_tasks_preprocess_image: "keeps_tasks (preprocess_image me p)"
  by (simp add: keeps_tasks_def preprocess_image_def split: sum.splits)

lemma keeps_tasks_preprocess_video_file: "keeps_tasks (preprocess_video_file me p n)"
  by (simp add: keeps_tasks_def preprocess_video_file_def split: sum.splits)

lemma keeps_tasks_run_model: "keeps_tasks (run_model me a b)"
  by (simp add: keeps_tasks_def run_model_def split: sum.splits option.splits)

lemma keeps_tasks_benchmark_runs: "keeps_tasks (benchmark_runs me a b k i ts)"
  unfolding keeps_tasks_def
proof (induction k arbitrary: i ts)
  case 0
  show ?case by simp
next
  case (Suc k)
  show ?case
  proof
    fix s
    obtain r s1 where f: "run_model me a b s = (r, s1)" by (cases "run_model me a b s")
    note q = keeps_tasksD [OF keeps_tasks_run_model f]
    show "current_tasks (snd (benchmark_runs me a b (Suc k) i ts s)) = current_tasks s \<and>
          background (snd (benchmark_runs me a b (Suc k) i ts s)) = background s"
      using f q Suc.IH by (cases r) simp_all
  qed
qed

lemma keeps_tasks_benchmark_performance: "keeps_tasks (benchmark_performance me p q n)"
  unfolding benchmark_performance_def
  by (intro keeps_tasks_bind keeps_tasks_preprocess_image keeps_tasks_preprocess_video_file
      keeps_tasks_benchmark_runs)
     (simp add: keeps_tasks_def split: option.splits)

lemma benchmark_model_keeps_tasks:
  "current_tasks (snd (benchmark_model me e t1 t2 a b n k s)) = current_tasks s \<and>
   background (snd (benchmark_model me e t1 t2 a b n k s)) = background s"
proof -
  let ?w = "io_bind (write_file me t1 (file_data a)) (\<lambda>_. write_file me t2 (file_data b))"
  let ?b = "io_bind (switch_if_needed e n) (\<lambda>_. benchmark_performance me t1 t2 k)"
  let ?r = "io_bind (remove_file me t1) (\<lambda>_. remove_file me t2)"
  have kw: "keeps_tasks ?w" by (intro keeps_tasks_bind keeps_tasks_write_file)
  have kb: "keeps_tasks ?b"
    by (intro keeps_tasks_bind keeps_tasks_switch keeps_tasks_benchmark_performance)
  have kr: "keeps_tasks ?r" by (intro keeps_tasks_bind keeps_tasks_remove_file)
  obtain r1 s1 where w: "?w s = (r1, s1)" by (cases "?w s")
  obtain r2 s2 where b: "?b s1 = (r2, s2)" by (cases "?b s1")
  obtain r3 s3 where r: "?r s2 = (r3, s3)" by (cases "?r s2")
  note f = keeps_tasksD [OF kw w] keeps_tasksD [OF kb b] keeps_tasksD [OF kr r]
  show ?thesis using w b r f
    by (simp add: benchmark_model_def split: sum.splits)
qed

lemma switch_model_keeps_tasks:
  "current_tasks (snd (switch_model e n s)) = current_tasks s \<and>
   background (snd (switch_model e n s)) = background s"
  by (auto simp: switch_model_def switch_predictor_def split: option.splits prod.splits sum.splits)

lemma cleanup_task_effect:
  "background (snd (cleanup_task me tid s)) = background s \<and>
   (current_tasks (snd (cleanup_task me tid s)) = current_tasks s \<or>
    current_tasks (snd (cleanup_task me tid s)) = (current_tasks s)(tid := None))"
proof (cases "current_tasks s tid")
  case None
  then show ?thesis by (simp add: cleanup_task_def)
next
  case (Some t)
  let ?rm = "case output_path t of
               Some p \<Rightarrow> if files s p \<noteq> None then remove_file me p s else (Inr (), s)
             | None \<Rightarrow> (Inr (), s)"
  obtain r s1 where rm: "?rm = (r, s1)" by (cases ?rm)
  have k: "current_tasks s1 = current_tasks s \<and> background s1 = background s"
  proof (cases "output_path t")
    case None
    then show ?thesis using rm by simp
  next
    case (Some p)
    show ?thesis
    proof (cases "files s p \<noteq> None")
      case True
      then have "remove_file me p s = (r, s1)" using rm Some by simp
      then show ?thesis using keeps_tasksD [OF keeps_tasks_remove_file] by blast
    next
      case False
      then show ?thesis using rm Some by simp
    qed
  qed
  show ?thesis using Some rm k by (cases r) (simp_all add: cleanup_task_def)
qed

lemma generate_motion_effect:
  "(current_tasks (snd (generate_motion me uuid a b n s)) = current_tasks s \<and>
    background (snd (generate_motion me uuid a b n s)) = background s) \<or>
   (\<exists>j t. current_tasks (snd (generate_motion me uuid a b n s)) = (current_tasks s)(uuid \<mapsto> t) \<and>
          \<not> terminal t \<and>
          background (snd (generate_motion me uuid a b n s)) = background s @ [j] \<and>
          job_task_id j = uuid)"
  by (auto simp: generate_motion_def write_file_def set_task_def Let_def terminal_def
      split: option.splits)

lemma try_block_frame:
  assumes "try_block me e tid src drv mname s = (r, s1)"
  shows "background s1 = background s \<and> (\<forall>i. i \<noteq> tid \<longrightarrow> current_tasks s1 i = current_tasks s i)"
proof (cases r)
  case (Inl err)
  then show ?thesis using try_block_raises [of me e tid src drv mname s err s1] assms by simp
next
  case (Inr u)
  from assms [unfolded Inr] obtain fp s7 s8 s9 where
        p: "produce_output me e tid src drv mname s = (Inr fp, s7)"
    and r1: "remove_file me src s7 = (Inr (), s8)"
    and r2: "remove_file me drv s8 = (Inr (), s9)"
    and fin: "s1 = set_task tid (completed_task fp) s9"
    unfolding try_block_def by (elim io_bind_cases) auto
  from produce_output_returns [OF p] obtain s6 c where
        ex: "extends tid (worker_output_path tid) s s6"
    and s7: "s7 = emit (FileMove (worker_output_path tid) (worker_final_path tid))
                    (s6\<lparr>files := ((files s6)(worker_output_path tid := None))
                                     (worker_final_path tid \<mapsto> c)\<rparr>)"
    by auto
  have k7: "current_tasks s7 = current_tasks s6 \<and> background s7 = background s6"
    using s7 by simp
  note k8 = keeps_tasksD [OF keeps_tasks_remove_file r1]
  note k9 = keeps_tasksD [OF keeps_tasks_remove_file r2]
  show ?thesis using ex k7 k8 k9 fin by (simp add: extends_def set_task_def)
qed

lemma process_motion_transfer_effect:
  "background (process_motion_transfer me e tid src drv mname s) = background s \<and>
   (\<forall>i. i \<noteq> tid \<longrightarrow>
      current_tasks (process_motion_transfer me e tid src drv mname s) i = current_tasks s i)"
proof -
  obtain r s1 where t: "try_block me e tid src drv mname s = (r, s1)"
    by (cases "try_block me e tid src drv mname s")
  show ?thesis using t try_block_frame [OF t]
    by (cases r) (simp_all add: process_motion_transfer_def set_task_def)
qed

lemma step_pending_ok:
  assumes "step me rq s s'" and "pending_ok s"
  shows "pending_ok s'"
  using assms
proof (induction rule: step.induct)
  case (s_submit uuid s src drv mname)
  let ?s' = "snd (generate_motion me uuid src drv mname s)"
  from generate_motion_effect [of me uuid src drv mname s] show ?case
  proof
    assume "current_tasks ?s' = current_tasks s \<and> background ?s' = background s"
    then show ?thesis using s_submit.prems by (simp add: pending_ok_def)
  next
    assume "\<exists>j t. current_tasks ?s' = (current_tasks s)(uuid \<mapsto> t) \<and> \<not> terminal t \<and>
              background ?s' = background s @ [j] \<and> job_task_id j = uuid"
    then obtain j t where a: "current_tasks ?s' = (current_tasks s)(uuid \<mapsto> t)" "\<not> terminal t"
      "background ?s' = background s @ [j]" "job_task_id j = uuid" by blast
    have d: "distinct (map job_task_id (background ?s'))"
      using a s_submit.hyps(2) s_submit.prems by (simp add: pending_ok_def)
    have "\<forall>j' \<in> set (background ?s'). \<forall>t'. current_tasks ?s' (job_task_id j') = Some t' \<longrightarrow> \<not> terminal t'"
      using a s_submit.prems by (auto simp: pending_ok_def)
    then show ?thesis using d by (simp add: pending_ok_def)
  qed
next
  case (s_worker s js1 j js2 e)
  let ?s0 = "s\<lparr>background := js1 @ js2\<rparr>"
  let ?s' = "process_motion_transfer me e (job_task_id j) (job_source_path j)
               (job_driving_path j) (job_model_name j) ?s0"
  note ef = process_motion_transfer_effect [of me e "job_task_id j" "job_source_path j"
              "job_driving_path j" "job_model_name j" ?s0]
  have bg: "background ?s' = js1 @ js2" using ef by simp
  have dist: "distinct (map job_task_id (js1 @ j # js2))"
    using s_worker.hyps s_worker.prems by (simp add: pending_ok_def)
  have d: "distinct (map job_task_id (js1 @ js2))" using dist by simp
  have nin: "job_task_id j \<notin> job_task_id ` set (js1 @ js2)"
    using dist by auto
  have other: "\<forall>j' \<in> set (js1 @ js2). job_task_id j' \<noteq> job_task_id j"
  proof
    fix j' assume "j' \<in> set (js1 @ js2)"
    then have "job_task_id j' \<in> job_task_id ` set (js1 @ js2)" by (rule imageI)
    then show "job_task_id j' \<noteq> job_task_id j" using nin by auto
  qed
  have "\<forall>j' \<in> set (js1 @ js2). \<forall>t'. current_tasks ?s' (job_task_id j') = Some t' \<longrightarrow> \<not> terminal t'"
  proof (intro ballI allI impI)
    fix j' t' assume m: "j' \<in> set (js1 @ js2)" and c: "current_tasks ?s' (job_task_id j') = Some t'"
    have "current_tasks s (job_task_id j') = Some t'" using ef other m c by simp
    moreover have "j' \<in> set (background s)" using m s_worker.hyps by auto
    ultimately show "\<not> terminal t'" using s_worker.prems by (auto simp: pending_ok_def)
  qed
  then show ?case using bg d by (simp add: pending_ok_def)
next
  case (s_status task_id s)
  then show ?case by simp
next
  case (s_download task_id s)
  then show ?case by simp
next
  case (s_cleanup task_id s)
  then show ?case using cleanup_task_effect [of me task_id s]
    by (auto simp: pending_ok_def split: if_splits)
next
  case (s_switch mname s e)
  then show ?case using switch_model_keeps_tasks [of e mname s] by (simp add: pending_ok_def)
next
  case (s_benchmark t1 t2 src drv mname n s e)
  then show ?case using benchmark_model_keeps_tasks [of me e t1 t2 src drv mname n s]
    by (simp add: pending_ok_def)
qed

lemma predictor_init_background:
  "background (snd (Motion3DPredictor_init e n d s)) = background s"
proof -
  obtain mm s1 where g: "get_model_manager e d s = (mm, s1)"
    by (cases "get_model_manager e d s")
  have b1: "background s1 = background s"
    using g by (auto simp: get_model_manager_def Let_def split: option.splits)
  obtain r lg mm' where l: "load_model e n None (loader_calls s1, mm) = (r, (lg, mm'))"
    by (cases "load_model e n None (loader_calls s1, mm)") auto
  show ?thesis using g l b1 by (cases r) (simp_all add: Motion3DPredictor_init_def)
qed

lemma startup_background: "background (startup_event e (app_init fs)) = []"
proof -
  let ?s = "app_init fs"
  obtain r1 s1 where a: "Motion3DPredictor_init e ''motion_clone'' ''auto'' ?s = (r1, s1)"
    by (cases "Motion3DPredictor_init e ''motion_clone'' ''auto'' ?s")
  obtain r2 s2 where b: "Motion3DPredictor_init e ''fomm'' ''auto'' s1 = (r2, s2)"
    by (cases "Motion3DPredictor_init e ''fomm'' ''auto'' s1")
  have b1: "background s1 = []"
    using predictor_init_background [of e "''motion_clone''" "''auto''" ?s] a
    by (simp add: app_init_def)
  have b2: "background s2 = []"
    using predictor_init_background [of e "''fomm''" "''auto''" s1] b b1 by simp
  show ?thesis using a b b1 b2 by (cases r1; cases r2) (simp_all add: startup_event_def)
qed

lemma reach_pending_ok: "reach me s \<Longrightarrow> pending_ok s"
proof (induction rule: reach.induct)
  case (reach_start e fs)
  show ?case using startup_background [of e fs] by (simp add: pending_ok_def)
next
  case (reach_step s rq s')
  then show ?case using step_pending_ok by blast
qed


text \<open>
  C5. In every state the service can reach, one more transition (a submission with a
  fresh identifier, the run of a pending job, a status or download request, a cleanup, a
  model switch or a benchmark) leaves every task that is \<open>completed\<close> or \<open>error\<close>
  exactly as it was, unless the transition is the cleanup of that very task, which
  removes its record.
\<close>

theorem terminal_status_is_final:
  assumes "reach me s" and "step me rq s s'"
    and "current_tasks s tid = Some t" and "status t = ''completed'' \<or> status t = ''error''"
  shows "current_tasks s' tid = Some t \<or> (rq = Cleanup tid \<and> current_tasks s' tid = None)"
proof -
  have ok: "pending_ok s" using assms(1) by (rule reach_pending_ok)
  have tm: "terminal t" using assms(4) by (simp add: terminal_def)
  from assms(2) show ?thesis
  proof (cases rule: step.cases)
    case (s_submit uuid src drv mname)
    then have "uuid \<noteq> tid" using assms(3) by auto
    then show ?thesis
      using s_submit(2) assms(3) generate_motion_effect [of me uuid src drv mname s] by auto
  next
    case (s_worker js1 j js2 e)
    have "j \<in> set (background s)" using s_worker(3) by simp
    then have "job_task_id j \<noteq> tid" using ok assms(3) tm by (auto simp: pending_ok_def)
    then show ?thesis
      using s_worker(2) assms(3)
        process_motion_transfer_effect [of me e "job_task_id j" "job_source_path j"
          "job_driving_path j" "job_model_name j" "s\<lparr>background := js1 @ js2\<rparr>"]
      by simp
  next
    case (s_status task_id)
    then show ?thesis using assms(3) by simp
  next
    case (s_download task_id)
    then show ?thesis using assms(3) by simp
  next
    case (s_cleanup task_id)
    then show ?thesis using assms(3) cleanup_task_effect [of me task_id s]
      by (cases "task_id = tid") auto
  next
    case (s_switch mname e)
    then show ?thesis using assms(3) switch_model_keeps_tasks [of e mname s] by simp
  next
    case (s_benchmark t1 t2 src drv mname n e)
    then show ?thesis using assms(3) benchmark_model_keeps_tasks [of me e t1 t2 src drv mname n s]
      by simp
  qed
qed

lemma finished_eq:
  "current_tasks finished =
     [''t1'' \<mapsto> \<lparr>status = ''completed'', progress = 100, output_path = Some ''results/t1.mp4'',
                 error = None\<rparr>]
   \<and> background finished = []"
  by (simp add: finished_def process_motion_transfer_def submitted_eq try_block_def
      produce_output_def generate_stage_def io_bind_def
      io_return_def update_task_def set_task_def emit_def switch_if_needed_def
      predictor_generate_motion_def preprocess_image_def preprocess_video_file_def
      preprocess_video_def run_model_def save_output_video_def move_file_def remove_file_def
      example_media_def worker_output_path_def worker_final_path_def path_join_def
      RESULTS_DIR_def startswith_def completed_task_def)

lemma reach_finished: "reach example_media finished"
proof -
  have r0: "reach example_media served"
    unfolding served_def by (rule reach.reach_start)
  have "step example_media (Submit ''t1'' png (mp4 ''abc'') ''fomm'') served
          (snd (generate_motion example_media ''t1'' png (mp4 ''abc'') ''fomm'' served))"
    by (rule step.s_submit) (simp_all add: served_eq)
  then have r1: "reach example_media (submitted ''abc'')"
    using r0 unfolding submitted_def by (rule reach.reach_step [rotated])
  let ?j = "\<lparr>job_task_id = ''t1'', job_source_path = ''uploads/t1_source.png'',
             job_driving_path = ''uploads/t1_driving.mp4'', job_model_name = ''fomm''\<rparr>"
  have bg: "background (submitted ''abc'') = [] @ ?j # []" by (simp add: submitted_eq)
  have "step example_media (Worker ?j) (submitted ''abc'')
          (process_motion_transfer example_media example_env (job_task_id ?j) (job_source_path ?j)
             (job_driving_path ?j) (job_model_name ?j)
             ((submitted ''abc'')\<lparr>background := [] @ []\<rparr>))"
    using bg by (rule step.s_worker)
  then have "step example_media (Worker ?j) (submitted ''abc'') finished"
    by (simp add: finished_def)
  then show ?thesis using r1 by (rule reach.reach_step [rotated])
qed

lemma cleanup_removes:
  "current_tasks (snd (cleanup_task example_media ''t1'' finished)) ''t1'' = None"
proof -
  note e = cleanup_task_effect [of example_media "''t1''" finished]
  have "fst (cleanup_task example_media ''t1'' finished) \<noteq> Inl (HTTPException 404 ''Task not found'')
        \<and> current_tasks (snd (cleanup_task example_media ''t1'' finished)) ''t1'' = None"
    by (simp add: cleanup_task_def finished_eq remove_file_def example_media_def
        split: option.splits)
  then show ?thesis by simp
qed

theorem terminal_status_is_final_witness:
  "current_tasks finished ''t1'' =
     Some \<lparr>status = ''completed'', progress = 100, output_path = Some ''results/t1.mp4'',
           error = None\<rparr>
   \<and> current_tasks (snd (generate_motion example_media ''t2'' png (mp4 ''xy'') ''fomm'' finished))
       ''t1'' =
     Some \<lparr>status = ''completed'', progress = 100, output_path = Some ''results/t1.mp4'',
           error = None\<rparr>
   \<and> current_tasks (snd (cleanup_task example_media ''t1'' finished)) ''t1'' = None"
proof -
  let ?t = "\<lparr>status = ''completed'', progress = 100, output_path = Some ''results/t1.mp4'',
           error = None\<rparr>"
  have c: "current_tasks finished ''t1'' = Some ?t" by (simp add: finished_eq)
  have st: "status ?t = ''completed'' \<or> status ?t = ''error''" by simp
  have s1: "step example_media (Submit ''t2'' png (mp4 ''xy'') ''fomm'') finished
          (snd (generate_motion example_media ''t2'' png (mp4 ''xy'') ''fomm'' finished))"
    by (rule step.s_submit) (simp_all add: finished_eq)
  have s2: "step example_media (Cleanup ''t1'') finished
          (snd (cleanup_task example_media ''t1'' finished))"
    by (rule step.s_cleanup)
  have a: "current_tasks (snd (generate_motion example_media ''t2'' png (mp4 ''xy'') ''fomm'' finished))
       ''t1'' = Some ?t"
    using terminal_status_is_final [OF reach_finished s1 c st] by simp
  have "current_tasks (snd (cleanup_task example_media ''t1'' finished)) ''t1'' = Some ?t \<or>
        current_tasks (snd (cleanup_task example_media ''t1'' finished)) ''t1'' = None"
    using terminal_status_is_final [OF reach_finished s2 c st] by simp
  moreover have "current_tasks (snd (cleanup_task example_media ''t1'' finished)) ''t1'' \<noteq> Some ?t"
    using cleanup_removes by simp
  ultimately show ?thesis using a c by simp
qed

section \<open>Benchmarking\<close>














end
